theory Spec2Isabelle
  imports Complex_Main "HOL-Library.Sublist"
begin

section \<open>Python strings\<close>

text \<open>
  Strings are byte lists. \<open>str.lower\<close>, \<open>str.strip\<close> and \<open>str.split\<close> are modelled on
  ASCII: the letters A to Z are folded, and the whitespace characters are the ASCII ones
  Python strips (tab to carriage return, the four separators 28 to 31, and space).
  The test \<open>k in s\<close> on two strings is \<^const>\<open>sublist\<close>: \<open>k\<close> occurs contiguously in \<open>s\<close>.
\<close>

definition lower_char :: "char \<Rightarrow> char" where
  "lower_char c =
     (case map_of (zip ''ABCDEFGHIJKLMNOPQRSTUVWXYZ'' ''abcdefghijklmnopqrstuvwxyz'') c of
        Some l \<Rightarrow> l
      | None \<Rightarrow> c)"

definition lower :: "string \<Rightarrow> string" where
  "lower s = map lower_char s"

definition is_space :: "char \<Rightarrow> bool" where
  "is_space c = (let n = (of_char c :: nat) in (9 \<le> n \<and> n \<le> 13) \<or> (28 \<le> n \<and> n \<le> 32))"

definition strip :: "string \<Rightarrow> string" where
  "strip s = rev (dropWhile is_space (rev (dropWhile is_space s)))"

text \<open>\<open>s.split()\<close>: the maximal runs of non-whitespace characters, in order.\<close>

fun split_acc :: "string \<Rightarrow> string \<Rightarrow> string list" where
  "split_acc w [] = (if w = [] then [] else [rev w])"
| "split_acc w (c # cs) =
     (if is_space c
      then (if w = [] then split_acc [] cs else rev w # split_acc [] cs)
      else split_acc (c # w) cs)"

definition split :: "string \<Rightarrow> string list" where
  "split s = split_acc [] s"


section \<open>Values, errors and the outside world\<close>

text \<open>
  A float is a number or NaN; the number type \<open>'n\<close> is left open, so nothing below
  depends on how floating point rounds. A cell of a frame read by \<open>pd.read_csv\<close> is a
  float (NaN for an empty field) or a string.
\<close>

datatype 'n pyfloat = NaN | Num 'n

datatype 'n cell = Float "'n pyfloat" | Str string

datatype timestamp = NaT | Timestamp nat

text \<open>
  The other Python values the program handles: decoded JSON and timestamps. A \<open>PDict\<close>
  carries the items of a dict: its keys are distinct and \<^const>\<open>map_of\<close> is the lookup.
\<close>

datatype 'n pyval =
    PNone
  | PBool bool
  | PFloat "'n pyfloat"
  | PStr string
  | PTime timestamp
  | PList "'n pyval list"
  | PDict "(string \<times> 'n pyval) list"

fun of_cell :: "'n cell \<Rightarrow> 'n pyval" where
  "of_cell (Float x) = PFloat x"
| "of_cell (Str s) = PStr s"

text \<open>Truth value of a Python object, as \<open>if data\<close> and \<open>a or b\<close> test it.\<close>

fun truthy :: "('n::zero) pyval \<Rightarrow> bool" where
  "truthy PNone = False"
| "truthy (PBool b) = b"
| "truthy (PFloat NaN) = True"
| "truthy (PFloat (Num x)) = (x \<noteq> 0)"
| "truthy (PStr s) = (s \<noteq> [])"
| "truthy (PTime t) = True"
| "truthy (PList xs) = (xs \<noteq> [])"
| "truthy (PDict kv) = (kv \<noteq> [])"

text \<open>Every exception the modelled code can raise, one constructor per raise site.\<close>

datatype error =
    KeyError string
  | AttributeError string
  | ValueError_float string
  | ValueError_datetime
  | ValueError_unsupported string
  | ReadError string
  | OSError string

record payload =
  model :: string
  prompt :: string
  stream :: bool

text \<open>A request's last argument is its \<open>timeout=\<close> in seconds, \<open>None\<close> when the call passes none.\<close>

datatype request =
    Get string "nat option"
  | Post string payload "nat option"

text \<open>
  What a request comes back with: an exception out of \<open>requests\<close> (timeout, connection
  error), or a response with its status code and its body decoded by \<open>.json()\<close>
  (\<open>None\<close> when the body is not JSON, where \<open>.json()\<close> raises).
\<close>

datatype 'n reply = Raised | Response nat "'n pyval option"

text \<open>
  A frame as \<open>pd.read_csv\<close> returns it: the column labels, and the rows with their index
  labels. A row maps a column label to its cell; a field the file leaves out reads as NaN.
\<close>

type_synonym 'n row = "string \<rightharpoonup> 'n cell"

record 'n dataframe =
  columns :: "string list"
  rows :: "(nat \<times> 'n row) list"

text \<open>
  The module globals loaded at import and everything outside the program: the two remote
  services, Python's \<open>float()\<close> and \<open>str()\<close> on numbers, \<open>pd.to_datetime\<close> (taken cell by
  cell; \<open>None\<close> where it raises), and the file system calls of \<open>process_csv\<close>
  (\<open>read_csv\<close>, \<open>to_csv\<close> and \<open>rename\<close> give the message of the exception they raise,
  if any).
\<close>

record 'n env =
  FILTER_KEYWORDS :: "string list"
  FEEDBACK_TAGS :: "string \<rightharpoonup> 'n pyval"
  http :: "request \<Rightarrow> 'n reply"
  float_of_str :: "string \<Rightarrow> 'n pyfloat option"
  str_of_num :: "'n \<Rightarrow> string"
  to_datetime :: "'n cell \<Rightarrow> timestamp option"
  read_csv :: "string \<Rightarrow> string + 'n dataframe"
  to_csv :: "string \<Rightarrow> string option"
  rename :: "string \<Rightarrow> string option"

text \<open>
  Effectful code returns its result, or the exception it raised, with the requests it
  sent up to that point.
\<close>

type_synonym 'a io = "(error + 'a) \<times> request list"

definition pure :: "'a \<Rightarrow> 'a io" where
  "pure x = (Inr x, [])"

definition lift :: "error + 'a \<Rightarrow> 'a io" where
  "lift r = (r, [])"

definition bind :: "'a io \<Rightarrow> ('a \<Rightarrow> 'b io) \<Rightarrow> 'b io" where
  "bind m f =
     (case m of
        (Inl e, t) \<Rightarrow> (Inl e, t)
      | (Inr x, t) \<Rightarrow> (case f x of (r, t') \<Rightarrow> (r, t @ t')))"

text \<open>\<open>Series.apply(f)\<close>: \<open>f\<close> on each element in order, stopping at the first exception.\<close>

fun apply_series :: "('a \<Rightarrow> 'b io) \<Rightarrow> 'a list \<Rightarrow> 'b list io" where
  "apply_series f [] = pure []"
| "apply_series f (x # xs) =
     bind (f x) (\<lambda>y. bind (apply_series f xs) (\<lambda>ys. pure (y # ys)))"


section \<open>main.py: enrichment and categorization\<close>

text \<open>\<open>str(x)\<close> of a cell, as f-strings and \<open>str(description)\<close> compute it.\<close>

fun cell_str :: "'n env \<Rightarrow> 'n cell \<Rightarrow> string" where
  "cell_str env (Str s) = s"
| "cell_str env (Float NaN) = ''nan''"
| "cell_str env (Float (Num x)) = str_of_num env x"

text \<open>
  \<open>data[0]['name']\<close>: defined when \<open>data\<close> is a list whose first element is a dict with the
  key; any other shape raises (IndexError, KeyError or TypeError), which is \<open>None\<close> here.
\<close>

fun first_name :: "'n pyval \<Rightarrow> 'n pyval option" where
  "first_name (PList (PDict kv # _)) = map_of kv ''name''"
| "first_name _ = None"

definition suggest_request :: "'n env \<Rightarrow> 'n cell \<Rightarrow> request" where
  "suggest_request env description =
     Get (''https://autocomplete.clearbit.com/v1/companies/suggest?query=''
          @ cell_str env description) (Some 5)"

definition enrich_merchant :: "('n::zero) env \<Rightarrow> 'n cell \<Rightarrow> 'n pyval \<times> request list" where
  "enrich_merchant env description =
     (let rq = suggest_request env description
      in (case http env rq of
            Raised \<Rightarrow> of_cell description
          | Response status_code body \<Rightarrow>
              if status_code = 200 then
                (case body of
                   None \<Rightarrow> of_cell description
                 | Some data \<Rightarrow>
                     if truthy data then
                       (case first_name data of
                          Some name \<Rightarrow> name
                        | None \<Rightarrow> of_cell description)
                     else of_cell description)
              else of_cell description,
          [rq]))"

definition OLLAMA_URL :: string where
  "OLLAMA_URL = ''http://localhost:11434/api/generate''"

definition Uncategorized :: string where
  "Uncategorized = ''Uncategorized''"

text \<open>
  \<open>resp.json().get("response", "Uncategorized").strip()\<close>: \<open>None\<close> where it raises (the
  body is not JSON, is not a dict, or the value is not a string).
\<close>

fun response_text :: "'n pyval option \<Rightarrow> string option" where
  "response_text (Some (PDict kv)) =
     (case map_of kv ''response'' of
        None \<Rightarrow> Some (strip Uncategorized)
      | Some (PStr s) \<Rightarrow> Some (strip s)
      | Some _ \<Rightarrow> None)"
| "response_text _ = None"

definition generate_request :: "string \<Rightarrow> request" where
  "generate_request description =
     Post OLLAMA_URL
       \<lparr>model = ''mistral'',
        prompt = ''Suggest a personal finance category for this transaction: ''
                 @ [CHR 39] @ description @ [CHR 39],
        stream = False\<rparr>
       (Some 10)"

definition ai_categorize :: "'n env \<Rightarrow> string \<Rightarrow> 'n pyval \<times> request list" where
  "ai_categorize env description =
     (case FEEDBACK_TAGS env description of
        Some tag \<Rightarrow> (tag, [])
      | None \<Rightarrow>
          (let rq = generate_request description
           in (case http env rq of
                 Raised \<Rightarrow> PStr Uncategorized
               | Response status_code body \<Rightarrow>
                   (case response_text body of
                      Some s \<Rightarrow> PStr s
                    | None \<Rightarrow> PStr Uncategorized),
               [rq])))"

definition VENDOR_MAP :: "(string \<times> string) list" where
  "VENDOR_MAP =
     [(''netflix'', ''Subscription''),
      (''spotify'', ''Subscription''),
      (''uber'', ''Transport''),
      (''amazon'', ''Shopping''),
      (''walmart'', ''Groceries'')]"

text \<open>The loop of \<open>tag_vendor\<close> over the items of a vendor table, in insertion order.\<close>

fun first_vendor :: "(string \<times> string) list \<Rightarrow> string \<Rightarrow> string option" where
  "first_vendor [] desc_lower = None"
| "first_vendor ((vendor, tag) # items) desc_lower =
     (if sublist vendor desc_lower then Some tag else first_vendor items desc_lower)"

definition tag_vendor :: "string \<Rightarrow> string option" where
  "tag_vendor description = first_vendor VENDOR_MAP (lower description)"

definition should_exclude :: "'n env \<Rightarrow> 'n cell \<Rightarrow> bool" where
  "should_exclude env description =
     (let desc = lower (cell_str env description)
      in list_ex (\<lambda>keyword. sublist keyword desc) (FILTER_KEYWORDS env))"

text \<open>\<open>tag_vendor(description) or ai_categorize(description)\<close> on a string.\<close>

definition get_category :: "'n env \<Rightarrow> string \<Rightarrow> 'n pyval \<times> request list" where
  "get_category env description =
     (case tag_vendor description of
        Some tag \<Rightarrow> if tag \<noteq> [] then (PStr tag, []) else ai_categorize env description
      | None \<Rightarrow> ai_categorize env description)"

text \<open>
  \<open>get_category\<close> on a cell of the frame: on a float, \<open>description.lower()\<close> in
  \<open>tag_vendor\<close> raises AttributeError before anything else happens.
\<close>

fun get_category_cell :: "'n env \<Rightarrow> 'n cell \<Rightarrow> 'n pyval io" where
  "get_category_cell env (Str s) = (case get_category env s of (c, t) \<Rightarrow> (Inr c, t))"
| "get_category_cell env (Float x) = (Inl (AttributeError ''lower''), [])"


section \<open>ai_categorizer.py\<close>

definition categorize_prompt :: "string \<Rightarrow> string" where
  "categorize_prompt description =
     ''You are a financial categorization engine. Given the following transaction description, ''
     @ ''return just one word that best represents the category it belongs to (e.g., ''
     @ [CHR 34] @ ''Groceries'' @ [CHR 34] @ '', '' @ [CHR 34] @ ''Dining'' @ [CHR 34] @ '', ''
     @ [CHR 34] @ ''Travel'' @ [CHR 34] @ '', '' @ [CHR 34] @ ''Gas'' @ [CHR 34] @ '', ''
     @ [CHR 34] @ ''Subscriptions'' @ [CHR 34] @ '', '' @ [CHR 34] @ ''Utilities'' @ [CHR 34] @ '', ''
     @ [CHR 34] @ ''Income'' @ [CHR 34] @ '').'' @ [CHR 10, CHR 10]
     @ ''Transaction: '' @ [CHR 34] @ description @ [CHR 34] @ [CHR 10] @ ''Category:''"

text \<open>
  \<open>response.json()["response"].strip().split()[0]\<close>: \<open>None\<close> where it raises (no JSON, no
  dict, no such key, not a string, or no token at all).
\<close>

fun first_token :: "'n pyval option \<Rightarrow> string option" where
  "first_token (Some (PDict kv)) =
     (case map_of kv ''response'' of
        Some (PStr s) \<Rightarrow> (case split (strip s) of [] \<Rightarrow> None | w # _ \<Rightarrow> Some w)
      | _ \<Rightarrow> None)"
| "first_token _ = None"

text \<open>\<open>raise_for_status\<close> raises on the status codes 400 to 599.\<close>

definition categorize_request :: "string \<Rightarrow> request" where
  "categorize_request description =
     Post OLLAMA_URL
       \<lparr>model = ''mistral'', prompt = categorize_prompt description, stream = False\<rparr>
       None"

definition categorize_transaction :: "'n env \<Rightarrow> string \<Rightarrow> string \<times> request list" where
  "categorize_transaction env description =
     (let rq = categorize_request description
      in (case http env rq of
            Raised \<Rightarrow> Uncategorized
          | Response status_code body \<Rightarrow>
              if 400 \<le> status_code \<and> status_code < 600 then Uncategorized
              else (case first_token body of Some w \<Rightarrow> w | None \<Rightarrow> Uncategorized),
          [rq]))"


section \<open>main.py: format detection and normalization\<close>

definition amex_column :: string where
  "amex_column = ''Appears On Your Statement As''"

definition chase_columns :: "string set" where
  "chase_columns = {''Transaction Date'', ''Post Date'', ''Description'', ''Category'', ''Type'',
                    ''Amount'', ''Memo''}"

definition bilt_columns :: "string set" where
  "bilt_columns = {''Transaction Date'', ''Description'', ''Points'', ''Category''}"

definition capone_columns :: "string set" where
  "capone_columns = {''Posted Date'', ''Card No.'', ''Debit'', ''Credit''}"

definition detect_format :: "'n dataframe \<Rightarrow> string" where
  "detect_format df =
     (let cols = set (columns df) in
      if amex_column \<in> cols then ''amex''
      else if chase_columns \<subseteq> cols then ''chase''
      else if bilt_columns \<subseteq> cols \<and> ''Card No.'' \<notin> cols then ''bilt''
      else if capone_columns \<subseteq> cols then ''capone''
      else ''unknown'')"

definition cell_at :: "'n row \<Rightarrow> string \<Rightarrow> 'n cell" where
  "cell_at r c = (case r c of Some v \<Rightarrow> v | None \<Rightarrow> Float NaN)"

text \<open>\<open>df[c]\<close>: the column as a series, KeyError when the frame has no such column.\<close>

definition getitem :: "'n dataframe \<Rightarrow> string \<Rightarrow> 'n cell list io" where
  "getitem df c =
     (if c \<in> set (columns df) then pure (map (\<lambda>(i, r). cell_at r c) (rows df))
      else lift (Inl (KeyError c)))"

text \<open>\<open>df[c] = series\<close>: every row gets its value, and the label is added when it is new.\<close>

definition setitem :: "'n dataframe \<Rightarrow> string \<Rightarrow> 'n cell list \<Rightarrow> 'n dataframe" where
  "setitem df c vals =
     \<lparr>columns = (if c \<in> set (columns df) then columns df else columns df @ [c]),
      rows = map (\<lambda>((i, r), v). (i, r(c \<mapsto> v))) (zip (rows df) vals)\<rparr>"

fun to_float :: "'n env \<Rightarrow> 'n cell \<Rightarrow> 'n pyfloat io" where
  "to_float env (Float x) = pure x"
| "to_float env (Str s) =
     (case float_of_str env s of Some x \<Rightarrow> pure x | None \<Rightarrow> lift (Inl (ValueError_float s)))"

definition astype_float :: "'n env \<Rightarrow> 'n cell list \<Rightarrow> 'n pyfloat list io" where
  "astype_float env series = apply_series (to_float env) series"

definition astype_str :: "'n env \<Rightarrow> 'n cell list \<Rightarrow> 'n cell list" where
  "astype_str env series = map (\<lambda>c. Str (cell_str env c)) series"

text \<open>\<open>.str.replace(",", "")\<close> on a series: the \<open>.str\<close> accessor gives NaN on a non-string.\<close>

definition str_replace_comma :: "'n cell list \<Rightarrow> 'n cell list" where
  "str_replace_comma series =
     map (\<lambda>c. case c of Str s \<Rightarrow> Str (filter (\<lambda>ch. ch \<noteq> CHR '','') s) | Float x \<Rightarrow> Float NaN)
         series"

fun fillna0 :: "('n::zero) cell \<Rightarrow> 'n cell" where
  "fillna0 (Float NaN) = Float (Num 0)"
| "fillna0 c = c"

fun fabs :: "('n::abs) pyfloat \<Rightarrow> 'n pyfloat" where
  "fabs (Num x) = Num \<bar>x\<bar>"
| "fabs NaN = NaN"

fun fsub :: "('n::minus) pyfloat \<Rightarrow> 'n pyfloat \<Rightarrow> 'n pyfloat" where
  "fsub (Num x) (Num y) = Num (x - y)"
| "fsub _ _ = NaN"

definition to_datetime_series :: "'n env \<Rightarrow> 'n cell list \<Rightarrow> timestamp list io" where
  "to_datetime_series env series =
     apply_series
       (\<lambda>c. case to_datetime env c of Some t \<Rightarrow> pure t | None \<Rightarrow> lift (Inl ValueError_datetime))
       series"

record 'n canonical =
  date :: timestamp
  description :: "'n pyval"
  amount :: "'n cell"
  category :: "'n pyval"
  source :: string

text \<open>
  \<open>pd.DataFrame({...})\<close> of the five columns: the series carry the index of the filtered
  frame, the source label is a scalar.
\<close>

definition DataFrame ::
  "nat list \<Rightarrow> timestamp list \<Rightarrow> 'n pyval list \<Rightarrow> 'n cell list \<Rightarrow> 'n pyval list \<Rightarrow> string
   \<Rightarrow> (nat \<times> 'n canonical) list" where
  "DataFrame idx dates descriptions amounts categories src =
     map (\<lambda>(i, d, n, a, c).
            (i, \<lparr>date = d, description = n, amount = a, category = c, source = src\<rparr>))
         (zip idx (zip dates (zip descriptions (zip amounts categories))))"

definition enrich_series :: "('n::zero) env \<Rightarrow> 'n cell list \<Rightarrow> 'n pyval list io" where
  "enrich_series env series =
     apply_series (\<lambda>c. case enrich_merchant env c of (v, t) \<Rightarrow> (Inr v, t)) series"

definition category_series :: "'n env \<Rightarrow> 'n cell list \<Rightarrow> 'n pyval list io" where
  "category_series env series = apply_series (get_category_cell env) series"

text \<open>The dict literal shared by the four branches, from the date column on.\<close>

definition build ::
  "('n::zero) env \<Rightarrow> 'n dataframe \<Rightarrow> string \<Rightarrow> ('n dataframe \<Rightarrow> 'n cell list io) \<Rightarrow> string
   \<Rightarrow> (nat \<times> 'n canonical) list io" where
  "build env df date_col amount_of src =
     bind (getitem df date_col) (\<lambda>ds.
     bind (to_datetime_series env ds) (\<lambda>dates.
     bind (getitem df ''Description'') (\<lambda>descs.
     bind (enrich_series env descs) (\<lambda>names.
     bind (amount_of df) (\<lambda>amounts.
     bind (getitem df ''Description'') (\<lambda>descs'.
     bind (category_series env descs') (\<lambda>cats.
     pure (DataFrame (map fst (rows df)) dates names amounts cats src))))))))"

definition amount_float :: "'n env \<Rightarrow> 'n dataframe \<Rightarrow> 'n cell list io" where
  "amount_float env df =
     bind (getitem df ''Amount'') (\<lambda>a.
     bind (astype_float env a) (\<lambda>xs. pure (map Float xs)))"

text \<open>
  \<open>df[~df["Description"].apply(should_exclude)]\<close>: the rows whose description is not
  excluded, with their index labels.
\<close>

definition exclude_rows :: "'n env \<Rightarrow> 'n dataframe \<Rightarrow> 'n dataframe" where
  "exclude_rows env df =
     df\<lparr>rows := filter (\<lambda>(i, r). \<not> should_exclude env (cell_at r ''Description'')) (rows df)\<rparr>"

text \<open>
  \<open>normalize\<close> of main.py (a constant of that name exists in the library). The steps
  run in the order the source evaluates them, so the first exception is the one raised
  and the requests sent before it are kept.
\<close>

definition normalize_df ::
  "('n::{zero,minus,abs}) env \<Rightarrow> 'n dataframe \<Rightarrow> string \<Rightarrow> (nat \<times> 'n canonical) list io" where
  "normalize_df env df0 src =
     bind (getitem df0 ''Description'') (\<lambda>_.
     let df = exclude_rows env df0 in
     if src = ''amex'' then
       build env df ''Date'' (amount_float env) ''Amex''
     else if src = ''chase'' then
       bind (getitem df ''Amount'') (\<lambda>a.
       bind (astype_float env (str_replace_comma (astype_str env a))) (\<lambda>xs.
       let df = setitem df ''Amount'' (map (Float \<circ> fabs) xs) in
       build env df ''Transaction Date'' (\<lambda>df. getitem df ''Amount'') ''Chase''))
     else if src = ''bilt'' then
       build env df ''Transaction Date'' (amount_float env) ''Bilt''
     else if src = ''capone'' then
       bind (getitem df ''Debit'') (\<lambda>d.
       bind (astype_float env (map fillna0 d)) (\<lambda>debit.
       bind (getitem df ''Credit'') (\<lambda>c.
       bind (astype_float env (map fillna0 c)) (\<lambda>credit.
       let df = setitem df ''amount'' (map (\<lambda>(x, y). Float (fsub x y)) (zip debit credit)) in
       build env df ''Transaction Date'' (\<lambda>df. getitem df ''amount'') ''CapitalOne''))))
     else
       lift (Inl (ValueError_unsupported src)))"


section \<open>main.py: the pipeline\<close>

datatype message =
    Unknown_format string
  | Processed string string
  | Failed string error
  | Insert_error error
  | Inserted_rows_from string

text \<open>
  What the pipeline changes: the lines printed, the requests sent, the files written to
  the normalized directory and the files moved to the processed directory.
\<close>

record 'n state =
  printed :: "message list"
  sent :: "request list"
  normalized :: "(string \<times> 'n canonical list) list"
  processed :: "string list"

text \<open>\<open>Path.stem\<close>: the name without its last suffix.\<close>

definition stem :: "string \<Rightarrow> string" where
  "stem name =
     (let k = length (takeWhile (\<lambda>ch. ch \<noteq> CHR ''.'') (rev name)) in
      if CHR ''.'' \<in> set name \<and> 0 < k \<and> k + 1 < length name
      then take (length name - k - 1) name else name)"

text \<open>
  A file is its name in the incoming directory. The result is the exception that leaves
  \<open>process_csv\<close>, if any, with the state as that call left it.
\<close>

definition process_csv ::
  "('n::{zero,minus,abs}) env \<Rightarrow> 'n state \<Rightarrow> string \<Rightarrow> error option \<times> 'n state" where
  "process_csv env st file_name =
     (case read_csv env file_name of
        Inl msg \<Rightarrow> (Some (ReadError msg), st)
      | Inr df \<Rightarrow>
          (let src = detect_format df in
           if src = ''unknown'' then
             (None, st\<lparr>printed := printed st @ [Unknown_format file_name]\<rparr>)
           else
             (case normalize_df env df src of
                (Inl e, t) \<Rightarrow> (Some e, st\<lparr>sent := sent st @ t\<rparr>)
              | (Inr norm_df, t) \<Rightarrow>
                  (let st = st\<lparr>sent := sent st @ t\<rparr>;
                       norm_file = stem file_name @ ''_normalized.csv''
                   in case to_csv env norm_file of
                        Some msg \<Rightarrow> (Some (OSError msg), st)
                      | None \<Rightarrow>
                          (let st = st\<lparr>normalized :=
                                         normalized st @ [(norm_file, map snd norm_df)]\<rparr>
                           in case rename env file_name of
                                Some msg \<Rightarrow> (Some (OSError msg), st)
                              | None \<Rightarrow>
                                  (None,
                                   st\<lparr>processed := processed st @ [file_name],
                                      printed := printed st
                                                 @ [Processed file_name norm_file]\<rparr>))))))"

text \<open>The loop of \<open>run_pipeline\<close> over the files the glob found.\<close>

fun run_pipeline :: "('n::{zero,minus,abs}) env \<Rightarrow> 'n state \<Rightarrow> string list \<Rightarrow> 'n state" where
  "run_pipeline env st [] = st"
| "run_pipeline env st (file # files) =
     (case process_csv env st file of
        (Some e, st') \<Rightarrow>
          run_pipeline env (st'\<lparr>printed := printed st' @ [Failed file e]\<rparr>) files
      | (None, st') \<Rightarrow> run_pipeline env st' files)"


section \<open>db/db_loader.py\<close>


record 'n transaction =
  tx_date :: "'n pyval"
  tx_description :: "'n pyval"
  tx_amount :: "'n pyval"
  tx_category :: "'n pyval"
  tx_direction :: "'n pyval"
  tx_source :: "'n pyval"
  tx_filename :: "'n pyval"









section \<open>Sample inputs\<close>

text \<open>
  Concrete inputs on which the theorems below are instantiated: a world with one exclusion
  keyword, one remembered correction, a lookup service that knows one merchant, a
  categorization service that answers with three words, and the \<open>float()\<close> of a few
  decimal literals.
\<close>

definition sample_http :: "request \<Rightarrow> rat reply" where
  "sample_http rq =
     (case rq of
        Get url t \<Rightarrow>
          if url = ''https://autocomplete.clearbit.com/v1/companies/suggest?query=Uber Trip''
          then Response 200 (Some (PList [PDict [(''name'', PStr ''Uber'')]]))
          else Raised
      | Post url p t \<Rightarrow> Response 200 (Some (PDict [(''response'', PStr ''Food & Dining'')])))"

definition sample_float :: "string \<Rightarrow> rat pyfloat option" where
  "sample_float =
     map_of [(''1200.50'', Num (2401 / 2)), (''15.00'', Num 15), (''nan'', NaN)]"

definition sample_datetime :: "rat cell \<Rightarrow> timestamp option" where
  "sample_datetime c =
     (case c of
        Str s \<Rightarrow> if s = ''2024-01-05'' then Some (Timestamp 19727) else None
      | Float x \<Rightarrow> Some NaT)"

definition chase_frame :: "rat dataframe" where
  "chase_frame =
     \<lparr>columns = [''Transaction Date'', ''Post Date'', ''Description'', ''Category'', ''Type'',
                 ''Amount'', ''Memo''],
      rows = [(0, [''Transaction Date'' \<mapsto> Str ''2024-01-05'',
                   ''Description'' \<mapsto> Str ''Corner Cafe'',
                   ''Amount'' \<mapsto> Str ''1,200.50'']),
              (1, [''Transaction Date'' \<mapsto> Str ''2024-01-05'',
                   ''Description'' \<mapsto> Str ''AUTOMATIC PAYMENT - THANK'',
                   ''Amount'' \<mapsto> Str ''15.00''])]\<rparr>"

definition capone_frame :: "rat dataframe" where
  "capone_frame =
     \<lparr>columns = [''Transaction Date'', ''Posted Date'', ''Card No.'', ''Description'',
                 ''Category'', ''Debit'', ''Credit''],
      rows = [(0, [''Transaction Date'' \<mapsto> Str ''2024-01-05'',
                   ''Description'' \<mapsto> Str ''Uber Trip'',
                   ''Debit'' \<mapsto> Float (Num 15),
                   ''Credit'' \<mapsto> Float NaN])]\<rparr>"

definition amex_frame :: "rat dataframe" where
  "amex_frame =
     \<lparr>columns = [''Date'', ''Description'', ''Amount'', ''Appears On Your Statement As''],
      rows = []\<rparr>"

definition bilt_frame :: "rat dataframe" where
  "bilt_frame =
     \<lparr>columns = [''Transaction Date'', ''Description'', ''Points'', ''Category'', ''Amount''],
      rows = []\<rparr>"

definition other_frame :: "rat dataframe" where
  "other_frame = \<lparr>columns = [''Date'', ''Payee'', ''Value''], rows = []\<rparr>"

definition sample_files :: "string \<Rightarrow> string + rat dataframe" where
  "sample_files name =
     (if name = ''chase.csv'' then Inr chase_frame
      else if name = ''capone.csv'' then Inr capone_frame
      else if name = ''notes.csv'' then Inr other_frame
      else Inl ''No columns to parse from file'')"

definition sample_env :: "rat env" where
  "sample_env =
     \<lparr>FILTER_KEYWORDS = [''payment''],
      FEEDBACK_TAGS = [''Corner Cafe'' \<mapsto> PStr ''Dining''],
      http = sample_http,
      float_of_str = sample_float,
      str_of_num = (\<lambda>x. ''0''),
      to_datetime = sample_datetime,
      read_csv = sample_files,
      to_csv = (\<lambda>name. None),
      rename = (\<lambda>name. None)\<rparr>"

definition failing_env :: "rat env" where
  "failing_env =
     sample_env\<lparr>http := (\<lambda>rq. Response 500 (Some (PDict [(''response'', PStr ''overloaded'')])))\<rparr>"

definition sample_state :: "rat state" where
  "sample_state = \<lparr>printed = [], sent = [], normalized = [], processed = []\<rparr>"




section \<open>Evaluating the sample inputs\<close>

lemma strip_food: "strip ''Food & Dining'' = ''Food & Dining''"
  by (simp add: strip_def is_space_def)

lemma split_food: "split ''Food & Dining'' = [''Food'', ''&'', ''Dining'']"
  by (simp add: split_def is_space_def)

lemma strip_overloaded: "strip ''overloaded'' = ''overloaded''"
  by (simp add: strip_def is_space_def)

lemma lower_coffee: "lower ''Coffee Shop'' = ''coffee shop''"
  by (simp add: lower_def lower_char_def)

lemma lower_uber: "lower ''Uber Trip'' = ''uber trip''"
  by (simp add: lower_def lower_char_def)

lemma lower_cafe: "lower ''Corner Cafe'' = ''corner cafe''"
  by (simp add: lower_def lower_char_def)

lemma lower_payment: "lower ''AUTOMATIC PAYMENT - THANK'' = ''automatic payment - thank''"
  by (simp add: lower_def lower_char_def)

lemma tag_vendor_coffee: "tag_vendor ''Coffee Shop'' = None"
  by (simp add: tag_vendor_def VENDOR_MAP_def lower_coffee sublist_code)

lemma tag_vendor_uber: "tag_vendor ''Uber Trip'' = Some ''Transport''"
  by (simp add: tag_vendor_def VENDOR_MAP_def lower_uber sublist_code)

lemma tag_vendor_cafe: "tag_vendor ''Corner Cafe'' = None"
  by (simp add: tag_vendor_def VENDOR_MAP_def lower_cafe sublist_code)





section \<open>Format detection\<close>

lemma detect_format_cases:
  "detect_format df \<in> {''amex'', ''chase'', ''bilt'', ''capone'', ''unknown''}"
  by (simp add: detect_format_def Let_def)

text \<open>
  C4. \<open>detect_format\<close> depends on the column set only. It answers \<open>amex\<close> exactly when the
  AmEx column is present; \<open>chase\<close> exactly when that fails and the Chase columns are all
  present; \<open>bilt\<close> exactly when both fail, the Bilt columns are present and \<open>Card No.\<close> is
  absent; \<open>capone\<close> exactly when the three fail and the CapitalOne columns are present;
  and \<open>unknown\<close> exactly when no predicate holds. So the predicates are tried in this
  order and the first that holds decides. No signature is shadowed by an earlier
  predicate: a file whose columns are exactly those of one signature gets its label.
\<close>

theorem detect_format_signatures:
  "(set (columns df') = set (columns df) \<longrightarrow> detect_format df' = detect_format df)
   \<and> (detect_format df = ''amex'' \<longleftrightarrow> amex_column \<in> set (columns df))
   \<and> (detect_format df = ''chase'' \<longleftrightarrow>
        amex_column \<notin> set (columns df) \<and> chase_columns \<subseteq> set (columns df))
   \<and> (detect_format df = ''bilt'' \<longleftrightarrow>
        amex_column \<notin> set (columns df) \<and> \<not> chase_columns \<subseteq> set (columns df)
        \<and> bilt_columns \<subseteq> set (columns df) \<and> ''Card No.'' \<notin> set (columns df))
   \<and> (detect_format df = ''capone'' \<longleftrightarrow>
        amex_column \<notin> set (columns df) \<and> \<not> chase_columns \<subseteq> set (columns df)
        \<and> \<not> (bilt_columns \<subseteq> set (columns df) \<and> ''Card No.'' \<notin> set (columns df))
        \<and> capone_columns \<subseteq> set (columns df))
   \<and> (detect_format df = ''unknown'' \<longleftrightarrow>
        amex_column \<notin> set (columns df) \<and> \<not> chase_columns \<subseteq> set (columns df)
        \<and> \<not> (bilt_columns \<subseteq> set (columns df) \<and> ''Card No.'' \<notin> set (columns df))
        \<and> \<not> capone_columns \<subseteq> set (columns df))
   \<and> (set (columns df) = {amex_column} \<longrightarrow> detect_format df = ''amex'')
   \<and> (set (columns df) = chase_columns \<longrightarrow> detect_format df = ''chase'')
   \<and> (set (columns df) = bilt_columns \<longrightarrow> detect_format df = ''bilt'')
   \<and> (set (columns df) = capone_columns \<longrightarrow> detect_format df = ''capone'')"
proof -
  have s: "amex_column \<notin> chase_columns" "amex_column \<notin> bilt_columns"
    "amex_column \<notin> capone_columns" "\<not> chase_columns \<subseteq> bilt_columns"
    "\<not> chase_columns \<subseteq> capone_columns" "''Card No.'' \<notin> bilt_columns"
    "\<not> bilt_columns \<subseteq> capone_columns"
    by (simp_all add: amex_column_def chase_columns_def bilt_columns_def capone_columns_def)
  show ?thesis
    by (auto simp: detect_format_def Let_def s)
qed

lemma sample_signatures:
  "amex_column \<in> set (columns amex_frame)"
  "amex_column \<notin> set (columns chase_frame)" "chase_columns \<subseteq> set (columns chase_frame)"
  "amex_column \<notin> set (columns bilt_frame)" "\<not> chase_columns \<subseteq> set (columns bilt_frame)"
  "bilt_columns \<subseteq> set (columns bilt_frame)" "''Card No.'' \<notin> set (columns bilt_frame)"
  "amex_column \<notin> set (columns capone_frame)" "\<not> chase_columns \<subseteq> set (columns capone_frame)"
  "''Card No.'' \<in> set (columns capone_frame)" "capone_columns \<subseteq> set (columns capone_frame)"
  "amex_column \<notin> set (columns other_frame)" "\<not> chase_columns \<subseteq> set (columns other_frame)"
  "\<not> bilt_columns \<subseteq> set (columns other_frame)" "\<not> capone_columns \<subseteq> set (columns other_frame)"
  by (simp_all add: amex_column_def chase_columns_def bilt_columns_def capone_columns_def
      amex_frame_def chase_frame_def bilt_frame_def capone_frame_def other_frame_def)

theorem detect_format_signatures_witness:
  "detect_format amex_frame = ''amex'' \<and> detect_format chase_frame = ''chase''
   \<and> detect_format bilt_frame = ''bilt'' \<and> detect_format capone_frame = ''capone''
   \<and> detect_format other_frame = ''unknown''
   \<and> set (columns (amex_frame\<lparr>rows := [(0, Map.empty)]\<rparr>)) = set (columns amex_frame)
   \<and> detect_format (amex_frame\<lparr>rows := [(0, Map.empty)]\<rparr>) = detect_format amex_frame"
  using detect_format_signatures [of "amex_frame\<lparr>rows := [(0, Map.empty)]\<rparr>" amex_frame]
    detect_format_signatures [of chase_frame chase_frame]
    detect_format_signatures [of bilt_frame bilt_frame]
    detect_format_signatures [of capone_frame capone_frame]
    detect_format_signatures [of other_frame other_frame]
  by (simp add: sample_signatures)


section \<open>Category resolution\<close>

lemma first_vendor_index:
  assumes "i < length tbl" "sublist (fst (tbl ! i)) s" "\<forall>j<i. \<not> sublist (fst (tbl ! j)) s"
  shows "first_vendor tbl s = Some (snd (tbl ! i))"
  using assms
proof (induction tbl arbitrary: i)
  case Nil
  then show ?case by simp
next
  case (Cons a tbl)
  obtain v t where a: "a = (v, t)" by (cases a)
  show ?case
  proof (cases i)
    case 0
    with Cons.prems a show ?thesis by simp
  next
    case (Suc k)
    from Cons.prems(3) Suc have nv: "\<not> sublist v s" using a by fastforce
    have "\<forall>j<k. \<not> sublist (fst (tbl ! j)) s"
      using Cons.prems(3) Suc by fastforce
    with Cons.IH[of k] Cons.prems Suc have "first_vendor tbl s = Some (snd (tbl ! k))" by simp
    with nv a Suc show ?thesis by simp
  qed
qed

lemma first_vendor_None:
  "first_vendor tbl s = None \<longleftrightarrow> (\<forall>(v, t) \<in> set tbl. \<not> sublist v s)"
  by (induction tbl) (auto split: if_splits)

lemma vendor_tags_nonempty: "(v, t) \<in> set VENDOR_MAP \<Longrightarrow> t \<noteq> []"
  by (auto simp: VENDOR_MAP_def)

text \<open>
  C2. For every description and every world (correction memory and remote service
  included): if rule \<open>i\<close> of the vendor table is the first whose pattern occurs in the
  lower-cased description, \<open>get_category\<close> returns that rule's category and sends no
  request; if no pattern occurs and the description is a key of the correction memory,
  it returns the remembered category and sends no request.
\<close>

theorem get_category_order:
  "(\<forall>i < length VENDOR_MAP.
      sublist (fst (VENDOR_MAP ! i)) (lower d)
      \<and> (\<forall>j<i. \<not> sublist (fst (VENDOR_MAP ! j)) (lower d))
      \<longrightarrow> get_category env d = (PStr (snd (VENDOR_MAP ! i)), []))
   \<and> (\<forall>tag. (\<forall>(vendor, t) \<in> set VENDOR_MAP. \<not> sublist vendor (lower d))
         \<and> FEEDBACK_TAGS env d = Some tag
      \<longrightarrow> get_category env d = (tag, []))"
proof (intro conjI allI impI)
  fix i
  assume i: "i < length VENDOR_MAP"
    and m: "sublist (fst (VENDOR_MAP ! i)) (lower d)
            \<and> (\<forall>j<i. \<not> sublist (fst (VENDOR_MAP ! j)) (lower d))"
  then have tv: "tag_vendor d = Some (snd (VENDOR_MAP ! i))"
    by (simp add: tag_vendor_def first_vendor_index)
  have "(fst (VENDOR_MAP ! i), snd (VENDOR_MAP ! i)) \<in> set VENDOR_MAP"
    using i by simp
  then have "snd (VENDOR_MAP ! i) \<noteq> []" by (rule vendor_tags_nonempty)
  with tv show "get_category env d = (PStr (snd (VENDOR_MAP ! i)), [])"
    by (simp add: get_category_def)
next
  fix tag
  assume "(\<forall>(vendor, t) \<in> set VENDOR_MAP. \<not> sublist vendor (lower d))
          \<and> FEEDBACK_TAGS env d = Some tag"
  then have "tag_vendor d = None" and "FEEDBACK_TAGS env d = Some tag"
    by (simp_all add: tag_vendor_def first_vendor_None)
  then show "get_category env d = (tag, [])"
    by (simp add: get_category_def ai_categorize_def)
qed

lemma uber_is_third_rule:
  "(2::nat) < length VENDOR_MAP"
  "sublist (fst (VENDOR_MAP ! 2)) (lower ''Uber Trip'')"
  "\<forall>j<2::nat. \<not> sublist (fst (VENDOR_MAP ! j)) (lower ''Uber Trip'')"
  "snd (VENDOR_MAP ! 2) = ''Transport''"
  by (simp_all add: VENDOR_MAP_def lower_uber sublist_code less_Suc_eq numeral_2_eq_2)

lemma cafe_matches_no_rule:
  "\<forall>(vendor, t) \<in> set VENDOR_MAP. \<not> sublist vendor (lower ''Corner Cafe'')"
  by (simp add: VENDOR_MAP_def lower_cafe sublist_code)

theorem get_category_order_witness:
  "get_category sample_env ''Uber Trip'' = (PStr ''Transport'', [])
   \<and> FEEDBACK_TAGS sample_env ''Corner Cafe'' = Some (PStr ''Dining'')
   \<and> get_category sample_env ''Corner Cafe'' = (PStr ''Dining'', [])"
proof -
  have m: "FEEDBACK_TAGS sample_env ''Corner Cafe'' = Some (PStr ''Dining'')"
    by (simp add: sample_env_def)
  from get_category_order [of "''Uber Trip''" sample_env] uber_is_third_rule
  have "get_category sample_env ''Uber Trip'' = (PStr ''Transport'', [])"
    by metis
  moreover from get_category_order [of "''Corner Cafe''" sample_env] cafe_matches_no_rule m
  have "get_category sample_env ''Corner Cafe'' = (PStr ''Dining'', [])"
    by blast
  ultimately show ?thesis using m by simp
qed

text \<open>
  C3, evaluated. With no vendor rule and no remembered correction for ``Coffee Shop'', and
  a service that answers status 200 with the text ``Food & Dining'', \<open>get_category\<close>
  returns the whole text, not its first token. \<open>categorize_transaction\<close> of
  ai_categorizer.py returns the first token on the same answer, and its request carries
  no timeout, where the request of \<open>ai_categorize\<close> carries ten seconds. When the service
  answers status 500 with a body that has a response text, \<open>get_category\<close> returns that
  text and \<open>categorize_transaction\<close> returns the sentinel.
\<close>

theorem get_category_whole_response:
  "get_category sample_env ''Coffee Shop''
     = (PStr ''Food & Dining'', [generate_request ''Coffee Shop''])
   \<and> categorize_transaction sample_env ''Coffee Shop''
     = (''Food'', [categorize_request ''Coffee Shop''])
   \<and> generate_request ''Coffee Shop''
     = Post OLLAMA_URL
         \<lparr>model = ''mistral'',
          prompt = ''Suggest a personal finance category for this transaction: ''
                   @ [CHR 39] @ ''Coffee Shop'' @ [CHR 39],
          stream = False\<rparr> (Some 10)
   \<and> categorize_request ''Coffee Shop''
     = Post OLLAMA_URL
         \<lparr>model = ''mistral'', prompt = categorize_prompt ''Coffee Shop'', stream = False\<rparr> None
   \<and> get_category failing_env ''Coffee Shop''
     = (PStr ''overloaded'', [generate_request ''Coffee Shop''])
   \<and> categorize_transaction failing_env ''Coffee Shop''
     = (''Uncategorized'', [categorize_request ''Coffee Shop''])"
  by (simp add: get_category_def tag_vendor_coffee ai_categorize_def categorize_transaction_def
      sample_env_def failing_env_def sample_http_def generate_request_def categorize_request_def
      strip_food split_food strip_overloaded Uncategorized_def)


section \<open>Merchant enrichment\<close>

text \<open>
  C7. \<open>enrich_merchant\<close> is total: it sends one request and returns a value whatever the
  service does. When the request raises, when the status is not 200, when the body is
  not JSON and when the candidate list is empty, the value is the description it was
  given; when the status is 200 and the first candidate has a name, the value is that
  name.
\<close>

theorem enrich_merchant_degrades:
  fixes env :: "('n::zero) env"
  shows
  "snd (enrich_merchant env d) = [suggest_request env d]
   \<and> (http env (suggest_request env d) = Raised \<longrightarrow> fst (enrich_merchant env d) = of_cell d)
   \<and> (\<forall>status body. http env (suggest_request env d) = Response status body \<and> status \<noteq> 200
         \<longrightarrow> fst (enrich_merchant env d) = of_cell d)
   \<and> (http env (suggest_request env d) = Response 200 None
         \<longrightarrow> fst (enrich_merchant env d) = of_cell d)
   \<and> (http env (suggest_request env d) = Response 200 (Some (PList []))
         \<longrightarrow> fst (enrich_merchant env d) = of_cell d)
   \<and> (\<forall>kv rest name.
         http env (suggest_request env d) = Response 200 (Some (PList (PDict kv # rest)))
         \<and> map_of kv ''name'' = Some name
         \<longrightarrow> fst (enrich_merchant env d) = name)"
  by (simp add: enrich_merchant_def Let_def)

lemma sample_suggest:
  "http sample_env (suggest_request sample_env (Str ''Uber Trip''))
     = Response 200 (Some (PList (PDict [(''name'', PStr ''Uber'')] # [])))"
  "map_of [(''name'', PStr ''Uber'' :: rat pyval)] ''name'' = Some (PStr ''Uber'')"
  "http sample_env (suggest_request sample_env (Str ''Corner Cafe'')) = Raised"
  by (simp_all add: sample_env_def sample_http_def suggest_request_def)

theorem enrich_merchant_degrades_witness:
  "http sample_env (suggest_request sample_env (Str ''Uber Trip''))
     = Response 200 (Some (PList [PDict [(''name'', PStr ''Uber'')]]))
   \<and> fst (enrich_merchant sample_env (Str ''Uber Trip'')) = PStr ''Uber''
   \<and> http sample_env (suggest_request sample_env (Str ''Corner Cafe'')) = Raised
   \<and> fst (enrich_merchant sample_env (Str ''Corner Cafe'')) = PStr ''Corner Cafe''"
proof -
  from enrich_merchant_degrades [of sample_env "Str ''Uber Trip''"] sample_suggest(1,2)
  have "fst (enrich_merchant sample_env (Str ''Uber Trip'')) = PStr ''Uber''"
    by blast
  moreover from enrich_merchant_degrades [of sample_env "Str ''Corner Cafe''"] sample_suggest(3)
  have "fst (enrich_merchant sample_env (Str ''Corner Cafe'')) = of_cell (Str ''Corner Cafe'')"
    by blast
  ultimately show ?thesis using sample_suggest by simp
qed


section \<open>The persister\<close>





















section \<open>Normalization\<close>

subsection \<open>Results of the steps\<close>

lemma bind_Inr_iff:
  "bind m f = (Inr y, t) \<longleftrightarrow> (\<exists>x t1 t2. m = (Inr x, t1) \<and> f x = (Inr y, t2) \<and> t = t1 @ t2)"
  by (cases m; cases "fst m") (auto simp: bind_def split: prod.splits sum.splits)

lemma pure_Inr_iff: "pure x = (Inr y, t) \<longleftrightarrow> y = x \<and> t = []"
  by (auto simp: pure_def)

lemma getitem_Inr_iff:
  "getitem df c = (Inr xs, t) \<longleftrightarrow>
     c \<in> set (columns df) \<and> xs = map (\<lambda>(i, r). cell_at r c) (rows df) \<and> t = []"
  by (auto simp: getitem_def pure_def lift_def)

lemma apply_series_Inr:
  "apply_series f xs = (Inr ys, t) \<Longrightarrow> map (\<lambda>x. fst (f x)) xs = map Inr ys"
proof (induction xs arbitrary: ys t)
  case Nil
  then show ?case by (simp add: pure_Inr_iff)
next
  case (Cons x xs)
  then show ?case by (fastforce simp: bind_Inr_iff pure_Inr_iff)
qed

lemma to_datetime_series_Inr:
  "to_datetime_series env xs = (Inr ds, t) \<Longrightarrow> map (to_datetime env) xs = map Some ds"
  unfolding to_datetime_series_def
proof (induction xs arbitrary: ds t)
  case Nil
  then show ?case by (simp add: pure_Inr_iff)
next
  case (Cons x xs)
  then show ?case
    by (cases "to_datetime env x") (fastforce simp: bind_Inr_iff pure_Inr_iff lift_def)+
qed

lemma enrich_series_Inr:
  "enrich_series env xs = (Inr ns, t) \<Longrightarrow> ns = map (\<lambda>c. fst (enrich_merchant env c)) xs"
  unfolding enrich_series_def
proof (induction xs arbitrary: ns t)
  case Nil
  then show ?case by (simp add: pure_Inr_iff)
next
  case (Cons x xs)
  then show ?case
    by (cases "enrich_merchant env x") (fastforce simp: bind_Inr_iff pure_Inr_iff)
qed

lemma category_series_Inr:
  "category_series env xs = (Inr cs, t)
   \<Longrightarrow> map (\<lambda>c. fst (get_category_cell env c)) xs = map Inr cs"
  unfolding category_series_def by (rule apply_series_Inr)

lemma astype_float_Inr:
  "astype_float env xs = (Inr ys, t) \<Longrightarrow> map (\<lambda>c. fst (to_float env c)) xs = map Inr ys"
  unfolding astype_float_def by (rule apply_series_Inr)

lemma build_Inr:
  assumes "build env df dc amt src = (Inr out, t)"
  shows "\<exists>dates names amounts cats ta.
           amt df = (Inr amounts, ta)
         \<and> map (\<lambda>(i, r). to_datetime env (cell_at r dc)) (rows df) = map Some dates
         \<and> names = map (\<lambda>(i, r). fst (enrich_merchant env (cell_at r ''Description''))) (rows df)
         \<and> map (\<lambda>(i, r). fst (get_category_cell env (cell_at r ''Description''))) (rows df)
             = map Inr cats
         \<and> out = DataFrame (map fst (rows df)) dates names amounts cats src"
proof -
  from assms obtain ds t1 dates t2 descs t3 names t4 amounts t5 descs' t6 cats t7 where
    1: "getitem df dc = (Inr ds, t1)" and
    2: "to_datetime_series env ds = (Inr dates, t2)" and
    3: "getitem df ''Description'' = (Inr descs, t3)" and
    4: "enrich_series env descs = (Inr names, t4)" and
    5: "amt df = (Inr amounts, t5)" and
    6: "getitem df ''Description'' = (Inr descs', t6)" and
    7: "category_series env descs' = (Inr cats, t7)" and
    8: "out = DataFrame (map fst (rows df)) dates names amounts cats src"
    unfolding build_def bind_Inr_iff pure_Inr_iff by blast
  from 1 have ds: "ds = map (\<lambda>(i, r). cell_at r dc) (rows df)" by (simp add: getitem_Inr_iff)
  from 3 have descs: "descs = map (\<lambda>(i, r). cell_at r ''Description'') (rows df)"
    by (simp add: getitem_Inr_iff)
  from 6 have descs': "descs' = descs" by (simp add: getitem_Inr_iff descs)
  have a: "map (\<lambda>(i, r). to_datetime env (cell_at r dc)) (rows df) = map Some dates"
    using to_datetime_series_Inr[OF 2] unfolding ds by (simp add: comp_def case_prod_unfold)
  have b: "names = map (\<lambda>(i, r). fst (enrich_merchant env (cell_at r ''Description''))) (rows df)"
    using enrich_series_Inr[OF 4] unfolding descs by (simp add: comp_def case_prod_unfold)
  have c: "map (\<lambda>(i, r). fst (get_category_cell env (cell_at r ''Description''))) (rows df)
             = map Inr cats"
    using category_series_Inr[OF 7] unfolding descs' descs by (simp add: comp_def case_prod_unfold)
  from 5 a b c 8 show ?thesis by blast
qed

lemma DataFrame_length:
  assumes "length ds = length idx" "length ns = length idx" "length as = length idx"
    "length cs = length idx"
  shows "length (DataFrame idx ds ns as cs src) = length idx"
  using assms by (simp add: DataFrame_def)

lemma DataFrame_nth:
  assumes "length ds = length idx" "length ns = length idx" "length as = length idx"
    "length cs = length idx" "k < length idx"
  shows "DataFrame idx ds ns as cs src ! k
           = (idx ! k, \<lparr>date = ds ! k, description = ns ! k, amount = as ! k,
                        category = cs ! k, source = src\<rparr>)"
  using assms by (simp add: DataFrame_def)



lemma map_zip_fst:
  "length xs = length ys \<Longrightarrow> map (\<lambda>p. f (fst p)) (zip xs ys) = map f xs"
  by (induction xs ys rule: list_induct2) auto

lemma map_zip_snd:
  "length xs = length ys \<Longrightarrow> map (\<lambda>p. f (snd p)) (zip xs ys) = map f ys"
  by (induction xs ys rule: list_induct2) auto

lemma setitem_index:
  "length vals = length (rows df) \<Longrightarrow> map fst (rows (setitem df c vals)) = map fst (rows df)"
  by (simp add: setitem_def comp_def case_prod_unfold map_zip_fst)

lemma setitem_same:
  "length vals = length (rows df)
   \<Longrightarrow> map (\<lambda>(i, r). cell_at r c) (rows (setitem df c vals)) = vals"
  using map_zip_snd[of "rows df" vals "\<lambda>v. v"]
  by (simp add: setitem_def comp_def case_prod_unfold cell_at_def)

lemma setitem_other:
  "length vals = length (rows df) \<Longrightarrow> c' \<noteq> c
   \<Longrightarrow> map (\<lambda>(i, r). f (cell_at r c')) (rows (setitem df c vals))
       = map (\<lambda>(i, r). f (cell_at r c')) (rows df)"
proof -
  assume l: "length vals = length (rows df)" and n: "c' \<noteq> c"
  have "map (\<lambda>(i, r). f (cell_at r c')) (rows (setitem df c vals))
          = map (\<lambda>p. (\<lambda>(i, r). f (cell_at r c')) (fst p)) (zip (rows df) vals)"
    using n by (simp add: setitem_def comp_def case_prod_unfold cell_at_def)
  also have "\<dots> = map (\<lambda>(i, r). f (cell_at r c')) (rows df)"
    using l map_zip_fst[of "rows df" vals "\<lambda>(i, r). f (cell_at r c')"] by simp
  finally show ?thesis .
qed

lemma length_setitem:
  "length vals = length (rows df) \<Longrightarrow> length (rows (setitem df c vals)) = length (rows df)"
  by (simp add: setitem_def)

lemma DataFrame_index:
  assumes "length ds = length idx" "length ns = length idx" "length as = length idx"
    "length cs = length idx"
  shows "map fst (DataFrame idx ds ns as cs src) = idx"
  using assms by (simp add: DataFrame_def comp_def case_prod_unfold map_zip_fst)

lemma exclude_rows_simps:
  "columns (exclude_rows env df) = columns df"
  "rows (exclude_rows env df)
     = filter (\<lambda>(i, r). \<not> should_exclude env (cell_at r ''Description'')) (rows df)"
  by (simp_all add: exclude_rows_def)

lemma to_float_Str_Inr:
  "fst (to_float env (Str s)) = Inr x \<longleftrightarrow> float_of_str env s = Some x"
  by (cases "float_of_str env s") (simp_all add: pure_def lift_def)

lemma to_float_Str_map:
  "map (\<lambda>p. fst (to_float env (Str (g p)))) ps = map Inr xs
   \<Longrightarrow> map (\<lambda>p. float_of_str env (g p)) ps = map Some xs"
proof (induction ps arbitrary: xs)
  case Nil
  then show ?case by simp
next
  case (Cons p ps)
  then obtain y ys where xs: "xs = y # ys" by (cases xs) auto
  with Cons show ?case by (simp add: to_float_Str_Inr del: to_float.simps)
qed

lemma amount_float_Inr:
  "amount_float env df = (Inr amounts, t)
   \<Longrightarrow> \<exists>xs. amounts = map Float xs
          \<and> map (\<lambda>(i, r). fst (to_float env (cell_at r ''Amount''))) (rows df) = map Inr xs"
proof -
  assume "amount_float env df = (Inr amounts, t)"
  then obtain a t1 xs t2 where
    1: "getitem df ''Amount'' = (Inr a, t1)" and
    2: "astype_float env a = (Inr xs, t2)" and
    3: "amounts = map Float xs"
    unfolding amount_float_def bind_Inr_iff pure_Inr_iff by blast
  from 1 have a: "a = map (\<lambda>(i, r). cell_at r ''Amount'') (rows df)"
    by (simp add: getitem_Inr_iff)
  have "map (\<lambda>(i, r). fst (to_float env (cell_at r ''Amount''))) (rows df) = map Inr xs"
    using astype_float_Inr[OF 2] unfolding a by (simp add: comp_def case_prod_unfold)
  with 3 show ?thesis by blast
qed

lemma normalize_chase_Inr:
  assumes "normalize_df env df0 ''chase'' = (Inr out, t)"
  shows "\<exists>xs t'.
           map (\<lambda>(i, r). float_of_str env
                             (filter (\<lambda>ch. ch \<noteq> CHR '','') (cell_str env (cell_at r ''Amount''))))
               (rows (exclude_rows env df0)) = map Some xs
         \<and> build env (setitem (exclude_rows env df0) ''Amount'' (map (Float \<circ> fabs) xs))
             ''Transaction Date'' (\<lambda>df. getitem df ''Amount'') ''Chase'' = (Inr out, t')"
proof -
  let ?df = "exclude_rows env df0"
  from assms obtain a t1 xs t2 t3 where
    1: "getitem ?df ''Amount'' = (Inr a, t1)" and
    2: "astype_float env (str_replace_comma (astype_str env a)) = (Inr xs, t2)" and
    3: "build env (setitem ?df ''Amount'' (map (Float \<circ> fabs) xs))
             ''Transaction Date'' (\<lambda>df. getitem df ''Amount'') ''Chase'' = (Inr out, t3)"
    unfolding normalize_df_def bind_Inr_iff Let_def by (auto simp: bind_Inr_iff)
  from 1 have a: "a = map (\<lambda>(i, r). cell_at r ''Amount'') (rows ?df)"
    by (simp add: getitem_Inr_iff)
  have "map (\<lambda>c. fst (to_float env c)) (str_replace_comma (astype_str env a)) = map Inr xs"
    using 2 by (rule astype_float_Inr)
  then have "map (\<lambda>p. fst (to_float env
                 (Str (filter (\<lambda>ch. ch \<noteq> CHR '','') (cell_str env (cell_at (snd p) ''Amount''))))))
               (rows ?df) = map Inr xs"
    unfolding a by (simp add: str_replace_comma_def astype_str_def comp_def case_prod_unfold)
  then have "map (\<lambda>p. float_of_str env
                 (filter (\<lambda>ch. ch \<noteq> CHR '','') (cell_str env (cell_at (snd p) ''Amount''))))
               (rows ?df) = map Some xs"
    by (rule to_float_Str_map)
  then have "map (\<lambda>(i, r). float_of_str env
                             (filter (\<lambda>ch. ch \<noteq> CHR '','') (cell_str env (cell_at r ''Amount''))))
               (rows ?df) = map Some xs"
    by (simp add: case_prod_unfold)
  with 3 show ?thesis by blast
qed

lemma normalize_capone_Inr:
  assumes "normalize_df env df0 ''capone'' = (Inr out, t)"
  shows "\<exists>debit credit t'.
           map (\<lambda>(i, r). fst (to_float env (fillna0 (cell_at r ''Debit''))))
               (rows (exclude_rows env df0)) = map Inr debit
         \<and> map (\<lambda>(i, r). fst (to_float env (fillna0 (cell_at r ''Credit''))))
               (rows (exclude_rows env df0)) = map Inr credit
         \<and> build env (setitem (exclude_rows env df0) ''amount''
                        (map (\<lambda>(x, y). Float (fsub x y)) (zip debit credit)))
             ''Transaction Date'' (\<lambda>df. getitem df ''amount'') ''CapitalOne'' = (Inr out, t')"
proof -
  let ?df = "exclude_rows env df0"
  from assms obtain d t1 debit t2 c t3 credit t4 t5 where
    1: "getitem ?df ''Debit'' = (Inr d, t1)" and
    2: "astype_float env (map fillna0 d) = (Inr debit, t2)" and
    3: "getitem ?df ''Credit'' = (Inr c, t3)" and
    4: "astype_float env (map fillna0 c) = (Inr credit, t4)" and
    5: "build env (setitem ?df ''amount'' (map (\<lambda>(x, y). Float (fsub x y)) (zip debit credit)))
             ''Transaction Date'' (\<lambda>df. getitem df ''amount'') ''CapitalOne'' = (Inr out, t5)"
    unfolding normalize_df_def bind_Inr_iff Let_def by (auto simp: bind_Inr_iff)
  from 1 have d: "d = map (\<lambda>(i, r). cell_at r ''Debit'') (rows ?df)"
    by (simp add: getitem_Inr_iff)
  from 3 have c: "c = map (\<lambda>(i, r). cell_at r ''Credit'') (rows ?df)"
    by (simp add: getitem_Inr_iff)
  have "map (\<lambda>(i, r). fst (to_float env (fillna0 (cell_at r ''Debit'')))) (rows ?df) = map Inr debit"
    using astype_float_Inr[OF 2] unfolding d by (simp add: comp_def case_prod_unfold)
  moreover
  have "map (\<lambda>(i, r). fst (to_float env (fillna0 (cell_at r ''Credit'')))) (rows ?df) = map Inr credit"
    using astype_float_Inr[OF 4] unfolding c by (simp add: comp_def case_prod_unfold)
  ultimately show ?thesis using 5 by blast
qed

lemma normalize_amex_Inr:
  assumes "normalize_df env df0 ''amex'' = (Inr out, t)"
  shows "\<exists>t'. build env (exclude_rows env df0) ''Date'' (amount_float env) ''Amex'' = (Inr out, t')"
  using assms unfolding normalize_df_def bind_Inr_iff Let_def by auto

lemma normalize_bilt_Inr:
  assumes "normalize_df env df0 ''bilt'' = (Inr out, t)"
  shows "\<exists>t'. build env (exclude_rows env df0) ''Transaction Date'' (amount_float env) ''Bilt''
               = (Inr out, t')"
  using assms unfolding normalize_df_def bind_Inr_iff Let_def by auto

lemma normalize_Inr_label:
  assumes "normalize_df env df0 src = (Inr out, t)"
  shows "src = ''amex'' \<or> src = ''chase'' \<or> src = ''bilt'' \<or> src = ''capone''"
  using assms unfolding normalize_df_def bind_Inr_iff Let_def
  by (auto simp: lift_def split: if_splits)


lemma map_eq_imp_length: "map f xs = map g ys \<Longrightarrow> length xs = length ys"
  by (metis length_map)

lemma map_eq_nth: "map f xs = map g ys \<Longrightarrow> k < length xs \<Longrightarrow> f (xs ! k) = g (ys ! k)"
  by (metis length_map nth_map)

text \<open>
  The frame a successful \<open>build\<close> returns, row by row: row \<open>k\<close> of the result carries the
  index of row \<open>k\<close> of the frame and the \<open>k\<close>-th amount.
\<close>

lemma build_rows:
  assumes b: "build env df dc amt src = (Inr out, t)"
    and a: "amt df = (Inr amounts, ta)"
    and l: "length amounts = length (rows df)"
  shows "length out = length (rows df)"
    and "k < length (rows df) \<Longrightarrow> fst (out ! k) = fst (rows df ! k)"
    and "k < length (rows df) \<Longrightarrow> amount (snd (out ! k)) = amounts ! k"
    and "k < length (rows df) \<Longrightarrow>
           description (snd (out ! k))
             = fst (enrich_merchant env (cell_at (snd (rows df ! k)) ''Description''))"
    and "k < length (rows df) \<Longrightarrow>
           Inr (category (snd (out ! k)))
             = fst (get_category_cell env (cell_at (snd (rows df ! k)) ''Description''))"
    and "k < length (rows df) \<Longrightarrow> source (snd (out ! k)) = src"
proof -
  from build_Inr[OF b] a obtain dates names cats where
    D: "map (\<lambda>(i, r). to_datetime env (cell_at r dc)) (rows df) = map Some dates" and
    N: "names = map (\<lambda>(i, r). fst (enrich_merchant env (cell_at r ''Description''))) (rows df)" and
    C: "map (\<lambda>(i, r). fst (get_category_cell env (cell_at r ''Description''))) (rows df)
             = map Inr cats" and
    O: "out = DataFrame (map fst (rows df)) dates names amounts cats src"
    by auto
  have ld: "length dates = length (map fst (rows df))"
    using map_eq_imp_length[OF D] by simp
  have ln: "length names = length (map fst (rows df))" by (simp add: N)
  have lc: "length cats = length (map fst (rows df))"
    using map_eq_imp_length[OF C] by simp
  have la: "length amounts = length (map fst (rows df))" using l by simp
  show "length out = length (rows df)"
    unfolding O using DataFrame_length[OF ld ln la lc] by simp
  {
    assume k: "k < length (rows df)"
    then have k': "k < length (map fst (rows df))" by simp
    have nth: "out ! k = (map fst (rows df) ! k,
                 \<lparr>date = dates ! k, description = names ! k, amount = amounts ! k,
                  category = cats ! k, source = src\<rparr>)"
      unfolding O by (rule DataFrame_nth[OF ld ln la lc k'])
    show "fst (out ! k) = fst (rows df ! k)" using nth k by simp
    show "amount (snd (out ! k)) = amounts ! k" using nth by simp
    show "description (snd (out ! k))
             = fst (enrich_merchant env (cell_at (snd (rows df ! k)) ''Description''))"
      using nth k by (simp add: N case_prod_unfold)
    show "Inr (category (snd (out ! k)))
             = fst (get_category_cell env (cell_at (snd (rows df ! k)) ''Description''))"
      using nth map_eq_nth[OF C k] by (simp add: case_prod_unfold)
    show "source (snd (out ! k)) = src" using nth by simp
  }
qed



lemma normalize_Inr_build:
  assumes n: "normalize_df env df0 src = (Inr out, t)"
  obtains df dc amt lbl t' amounts ta where
    "build env df dc amt lbl = (Inr out, t')"
    "amt df = (Inr amounts, ta)"
    "length amounts = length (rows df)"
    "map fst (rows df) = map fst (rows (exclude_rows env df0))"
    "map (\<lambda>(i, r). cell_at r ''Description'') (rows df)
       = map (\<lambda>(i, r). cell_at r ''Description'') (rows (exclude_rows env df0))"
proof -
  let ?kept = "exclude_rows env df0"
  from normalize_Inr_label[OF n]
  consider "src = ''amex''" | "src = ''chase''" | "src = ''bilt''" | "src = ''capone''" by blast
  then show thesis
  proof cases
    case 1
    with n obtain t' where
      B: "build env ?kept ''Date'' (amount_float env) ''Amex'' = (Inr out, t')"
      using normalize_amex_Inr by blast
    from build_Inr[OF B] obtain amounts ta where
      A: "amount_float env ?kept = (Inr amounts, ta)" by blast
    from amount_float_Inr[OF A] have "length amounts = length (rows ?kept)"
      using map_eq_imp_length by fastforce
    then show thesis using that[OF B A _ refl refl] by blast
  next
    case 3
    with n obtain t' where
      B: "build env ?kept ''Transaction Date'' (amount_float env) ''Bilt'' = (Inr out, t')"
      using normalize_bilt_Inr by blast
    from build_Inr[OF B] obtain amounts ta where
      A: "amount_float env ?kept = (Inr amounts, ta)" by blast
    from amount_float_Inr[OF A] have "length amounts = length (rows ?kept)"
      using map_eq_imp_length by fastforce
    then show thesis using that[OF B A _ refl refl] by blast
  next
    case 2
    with n obtain xs t' where
      X: "map (\<lambda>(i, r). float_of_str env
                (filter (\<lambda>ch. ch \<noteq> CHR '','') (cell_str env (cell_at r ''Amount''))))
            (rows ?kept) = map Some xs" and
      B: "build env (setitem ?kept ''Amount'' (map (Float \<circ> fabs) xs))
             ''Transaction Date'' (\<lambda>df. getitem df ''Amount'') ''Chase'' = (Inr out, t')"
      using normalize_chase_Inr by blast
    let ?vals = "map (Float \<circ> fabs) xs"
    let ?df = "setitem ?kept ''Amount'' ?vals"
    have lv: "length ?vals = length (rows ?kept)" using map_eq_imp_length[OF X] by simp
    from build_Inr[OF B] obtain amounts ta where A: "getitem ?df ''Amount'' = (Inr amounts, ta)"
      by blast
    then have "amounts = ?vals" using setitem_same[OF lv] by (simp add: getitem_Inr_iff)
    then have la: "length amounts = length (rows ?df)" using lv length_setitem[OF lv] by simp
    have d: "map (\<lambda>(i, r). cell_at r ''Description'') (rows ?df)
               = map (\<lambda>(i, r). cell_at r ''Description'') (rows ?kept)"
      using setitem_other[OF lv, of "''Description''" "''Amount''" "\<lambda>c. c"] by simp
    show thesis using that[OF B A la setitem_index[OF lv] d] .
  next
    case 4
    with n obtain debit credit t' where
      Dd: "map (\<lambda>(i, r). fst (to_float env (fillna0 (cell_at r ''Debit'')))) (rows ?kept)
             = map Inr debit" and
      Cc: "map (\<lambda>(i, r). fst (to_float env (fillna0 (cell_at r ''Credit'')))) (rows ?kept)
             = map Inr credit" and
      B: "build env (setitem ?kept ''amount''
                        (map (\<lambda>(x, y). Float (fsub x y)) (zip debit credit)))
             ''Transaction Date'' (\<lambda>df. getitem df ''amount'') ''CapitalOne'' = (Inr out, t')"
      using normalize_capone_Inr by blast
    let ?vals = "map (\<lambda>(x, y). Float (fsub x y)) (zip debit credit)"
    let ?df = "setitem ?kept ''amount'' ?vals"
    have lv: "length ?vals = length (rows ?kept)"
      using map_eq_imp_length[OF Dd] map_eq_imp_length[OF Cc] by simp
    from build_Inr[OF B] obtain amounts ta where A: "getitem ?df ''amount'' = (Inr amounts, ta)"
      by blast
    then have "amounts = ?vals" using setitem_same[OF lv] by (simp add: getitem_Inr_iff)
    then have la: "length amounts = length (rows ?df)" using lv length_setitem[OF lv] by simp
    have d: "map (\<lambda>(i, r). cell_at r ''Description'') (rows ?df)
               = map (\<lambda>(i, r). cell_at r ''Description'') (rows ?kept)"
      using setitem_other[OF lv, of "''Description''" "''amount''" "\<lambda>c. c"] by simp
    show thesis using that[OF B A la setitem_index[OF lv] d] .
  qed
qed

subsection \<open>Requests sent\<close>

lemma snd_bind_subset:
  assumes "set (snd m) \<subseteq> A" "\<And>x t. m = (Inr x, t) \<Longrightarrow> set (snd (f x)) \<subseteq> A"
  shows "set (snd (bind m f)) \<subseteq> A"
  using assms by (cases m; cases "fst m") (auto simp: bind_def split: prod.splits)

lemma snd_apply_series_subset:
  "(\<And>x. x \<in> set xs \<Longrightarrow> set (snd (f x)) \<subseteq> A) \<Longrightarrow> set (snd (apply_series f xs)) \<subseteq> A"
proof (induction xs)
  case Nil
  then show ?case by (simp add: pure_def)
next
  case (Cons x xs)
  show ?case
    unfolding apply_series.simps
    by (intro snd_bind_subset) (simp_all add: Cons pure_def)
qed

lemma snd_getitem: "snd (getitem df c) = []"
  by (simp add: getitem_def pure_def lift_def)

lemma snd_to_float: "snd (to_float env c) = []"
  by (cases c) (simp_all add: pure_def lift_def split: option.splits)

lemma snd_apply_series_Nil:
  assumes "\<And>x. snd (f x) = []"
  shows "snd (apply_series f xs) = []"
proof -
  have "set (snd (apply_series f xs)) \<subseteq> {}"
    by (rule snd_apply_series_subset) (simp add: assms)
  then show ?thesis by simp
qed

lemma snd_astype_float: "snd (astype_float env xs) = []"
  unfolding astype_float_def by (rule snd_apply_series_Nil) (rule snd_to_float)

lemma snd_to_datetime_series: "snd (to_datetime_series env xs) = []"
  unfolding to_datetime_series_def
  by (rule snd_apply_series_Nil) (simp add: pure_def lift_def split: option.splits)

lemma snd_amount_float: "snd (amount_float env df) = []"
proof -
  have "set (snd (amount_float env df)) \<subseteq> {}"
    unfolding amount_float_def
    by (intro snd_bind_subset) (simp_all add: snd_getitem snd_astype_float pure_def)
  then show ?thesis by simp
qed

lemma build_requests:
  assumes a: "set (snd (amt df)) \<subseteq> A"
    and r: "\<And>i r. (i, r) \<in> set (rows df) \<Longrightarrow>
              set (snd (enrich_merchant env (cell_at r ''Description''))) \<subseteq> A
            \<and> set (snd (get_category_cell env (cell_at r ''Description''))) \<subseteq> A"
  shows "set (snd (build env df dc amt src)) \<subseteq> A"
proof -
  have e: "set (snd (enrich_series env xs)) \<subseteq> A"
    if "getitem df ''Description'' = (Inr xs, t)" for xs t
  proof -
    from that have xs: "xs = map (\<lambda>(i, r). cell_at r ''Description'') (rows df)"
      by (simp add: getitem_Inr_iff)
    show ?thesis
      unfolding enrich_series_def
    proof (rule snd_apply_series_subset)
      fix c assume "c \<in> set xs"
      then obtain i r where "(i, r) \<in> set (rows df)" "c = cell_at r ''Description''"
        unfolding xs by auto
      with r show "set (snd (case enrich_merchant env c of (v, t) \<Rightarrow> (Inr v, t))) \<subseteq> A"
        by (simp add: case_prod_unfold)
    qed
  qed
  have c: "set (snd (category_series env xs)) \<subseteq> A"
    if "getitem df ''Description'' = (Inr xs, t)" for xs t
  proof -
    from that have xs: "xs = map (\<lambda>(i, r). cell_at r ''Description'') (rows df)"
      by (simp add: getitem_Inr_iff)
    show ?thesis
      unfolding category_series_def
    proof (rule snd_apply_series_subset)
      fix c assume "c \<in> set xs"
      then obtain i r where "(i, r) \<in> set (rows df)" "c = cell_at r ''Description''"
        unfolding xs by auto
      with r show "set (snd (get_category_cell env c)) \<subseteq> A" by simp
    qed
  qed
  show ?thesis
    unfolding build_def
    by (intro snd_bind_subset)
       (simp_all add: snd_getitem snd_to_datetime_series a e c pure_def getitem_Inr_iff)
qed


lemma setitem_rows:
  "(i, r') \<in> set (rows (setitem df c vals)) \<Longrightarrow> \<exists>r v. (i, r) \<in> set (rows df) \<and> r' = r(c \<mapsto> v)"
  by (auto simp: setitem_def dest: set_zip_leftD)

lemma normalize_requests:
  "set (snd (normalize_df env df0 src))
     \<subseteq> (\<Union>(i, r) \<in> set (rows (exclude_rows env df0)).
          set (snd (enrich_merchant env (cell_at r ''Description'')))
          \<union> set (snd (get_category_cell env (cell_at r ''Description''))))"
  (is "_ \<subseteq> ?A")
proof -
  let ?df = "exclude_rows env df0"
  have kept: "set (snd (enrich_merchant env (cell_at r ''Description''))) \<subseteq> ?A
            \<and> set (snd (get_category_cell env (cell_at r ''Description''))) \<subseteq> ?A"
    if "(i, r) \<in> set (rows ?df)" for i r
    using that by blast
  have upd: "set (snd (enrich_merchant env (cell_at r' ''Description''))) \<subseteq> ?A
            \<and> set (snd (get_category_cell env (cell_at r' ''Description''))) \<subseteq> ?A"
    if "(i, r') \<in> set (rows (setitem ?df c vals))" "c \<noteq> ''Description''" for i r' c vals
  proof -
    from setitem_rows[OF that(1)] obtain r v where
      r: "(i, r) \<in> set (rows ?df)" "r' = r(c \<mapsto> v)" by blast
    then have "cell_at r' ''Description'' = cell_at r ''Description''"
      using that(2) by (simp add: cell_at_def)
    with kept[OF r(1)] show ?thesis by simp
  qed
  have plain: "set (snd (build env ?df dc (amount_float env) lbl)) \<subseteq> ?A" for dc lbl
    by (rule build_requests) (simp add: snd_amount_float, rule kept)
  have stored: "set (snd (build env (setitem ?df c vals) dc (\<lambda>df. getitem df c) lbl)) \<subseteq> ?A"
    if "c \<noteq> ''Description''" for c vals dc lbl
    by (rule build_requests) (simp add: snd_getitem, rule upd[OF _ that])
  have chase: "set (snd
          (bind (getitem ?df ''Amount'') (\<lambda>a.
           bind (astype_float env (str_replace_comma (astype_str env a))) (\<lambda>xs.
           build env (setitem ?df ''Amount'' (map (Float \<circ> fabs) xs))
             ''Transaction Date'' (\<lambda>df. getitem df ''Amount'') ''Chase'')))) \<subseteq> ?A"
    by (intro snd_bind_subset stored) (simp_all add: snd_getitem snd_astype_float)
  have capone: "set (snd
          (bind (getitem ?df ''Debit'') (\<lambda>d.
           bind (astype_float env (map fillna0 d)) (\<lambda>debit.
           bind (getitem ?df ''Credit'') (\<lambda>c.
           bind (astype_float env (map fillna0 c)) (\<lambda>credit.
           build env (setitem ?df ''amount''
                        (map (\<lambda>(x, y). Float (fsub x y)) (zip debit credit)))
             ''Transaction Date'' (\<lambda>df. getitem df ''amount'') ''CapitalOne'')))))) \<subseteq> ?A"
    by (intro snd_bind_subset stored) (simp_all add: snd_getitem snd_astype_float)
  show ?thesis
    unfolding normalize_df_def Let_def
    by (rule snd_bind_subset) (simp_all add: snd_getitem plain chase capone lift_def)
qed

subsection \<open>The sample frames, normalized\<close>


lemma should_exclude_samples:
  "\<not> should_exclude sample_env (Str ''Corner Cafe'')"
  "should_exclude sample_env (Str ''AUTOMATIC PAYMENT - THANK'')"
  "\<not> should_exclude sample_env (Str ''Uber Trip'')"
  by (simp_all add: should_exclude_def sample_env_def lower_cafe lower_payment lower_uber
      sublist_code)

lemma enrich_samples:
  "enrich_merchant sample_env (Str ''Corner Cafe'')
     = (PStr ''Corner Cafe'', [suggest_request sample_env (Str ''Corner Cafe'')])"
  "enrich_merchant sample_env (Str ''Uber Trip'')
     = (PStr ''Uber'', [suggest_request sample_env (Str ''Uber Trip'')])"
  by (simp_all add: enrich_merchant_def Let_def sample_suggest)

lemma category_samples:
  "get_category sample_env ''Corner Cafe'' = (PStr ''Dining'', [])"
  "get_category sample_env ''Uber Trip'' = (PStr ''Transport'', [])"
  by (simp_all add: get_category_def tag_vendor_cafe tag_vendor_uber ai_categorize_def
      sample_env_def)

lemma exclude_chase_frame:
  "exclude_rows sample_env chase_frame =
     \<lparr>columns = [''Transaction Date'', ''Post Date'', ''Description'', ''Category'', ''Type'',
                 ''Amount'', ''Memo''],
      rows = [(0, [''Transaction Date'' \<mapsto> Str ''2024-01-05'',
                   ''Description'' \<mapsto> Str ''Corner Cafe'',
                   ''Amount'' \<mapsto> Str ''1,200.50''])]\<rparr>"
  by (simp add: exclude_rows_def chase_frame_def cell_at_def should_exclude_samples)

lemma exclude_capone_frame: "exclude_rows sample_env capone_frame = capone_frame"
  by (simp add: exclude_rows_def capone_frame_def cell_at_def should_exclude_samples)

lemma sample_env_simps:
  "float_of_str sample_env ''1200.50'' = Some (Num (2401 / 2))"
  "to_datetime sample_env (Str ''2024-01-05'') = Some (Timestamp 19727)"
  by (simp_all add: sample_env_def sample_float_def sample_datetime_def)

lemma normalize_chase_frame:
  "normalize_df sample_env chase_frame ''chase'' =
     (Inr [(0, \<lparr>date = Timestamp 19727, description = PStr ''Corner Cafe'',
                amount = Float (Num (2401 / 2)), category = PStr ''Dining'',
                source = ''Chase''\<rparr>)],
      [suggest_request sample_env (Str ''Corner Cafe'')])"
  unfolding normalize_df_def Let_def exclude_chase_frame
  by (simp add: chase_frame_def getitem_def bind_def pure_def lift_def build_def setitem_def
      astype_float_def astype_str_def str_replace_comma_def cell_at_def sample_env_simps
      to_datetime_series_def enrich_series_def category_series_def enrich_samples
      category_samples DataFrame_def)

lemma normalize_capone_frame:
  "normalize_df sample_env capone_frame ''capone'' =
     (Inr [(0, \<lparr>date = Timestamp 19727, description = PStr ''Uber'',
                amount = Float (Num 15), category = PStr ''Transport'',
                source = ''CapitalOne''\<rparr>)],
      [suggest_request sample_env (Str ''Uber Trip'')])"
  unfolding normalize_df_def Let_def exclude_capone_frame
  by (simp add: capone_frame_def getitem_def bind_def pure_def lift_def build_def setitem_def
      astype_float_def cell_at_def sample_env_simps
      to_datetime_series_def enrich_series_def category_series_def enrich_samples
      category_samples DataFrame_def)

subsection \<open>Amounts\<close>



subsection \<open>Excluded rows\<close>

text \<open>
  C5. \<open>should_exclude\<close> holds of a description exactly when some keyword of
  \<open>FILTER_KEYWORDS\<close> occurs in the lower-cased \<open>str\<close> of it. When \<open>normalize\<close> returns, the
  index of its result is the index of the input rows that \<open>should_exclude\<close> rejects, in
  order, and each result row carries the enriched description and the category of the
  input row with its index. Whether or not it returns, every request it sent is one that
  enrichment or categorization sends for the description of a row that was kept.
\<close>

theorem normalize_drops_excluded:
  fixes env :: "('n::{zero,minus,abs}) env"
  shows
  "(should_exclude env d \<longleftrightarrow>
      (\<exists>keyword \<in> set (FILTER_KEYWORDS env). sublist keyword (lower (cell_str env d))))
   \<and> (\<forall>out t. normalize_df env df src = (Inr out, t) \<longrightarrow>
        map fst out
          = map fst (filter (\<lambda>(i, r). \<not> should_exclude env (cell_at r ''Description'')) (rows df))
        \<and> list_all2
            (\<lambda>(i, r) (j, c). j = i
               \<and> description c = fst (enrich_merchant env (cell_at r ''Description''))
               \<and> Inr (category c) = fst (get_category_cell env (cell_at r ''Description'')))
            (filter (\<lambda>(i, r). \<not> should_exclude env (cell_at r ''Description'')) (rows df)) out)
   \<and> set (snd (normalize_df env df src))
        \<subseteq> (\<Union>(i, r) \<in> set (filter (\<lambda>(i, r). \<not> should_exclude env (cell_at r ''Description''))
                                (rows df)).
             set (snd (enrich_merchant env (cell_at r ''Description'')))
             \<union> set (snd (get_category_cell env (cell_at r ''Description''))))"
proof (intro conjI allI impI)
  show "should_exclude env d \<longleftrightarrow>
      (\<exists>keyword \<in> set (FILTER_KEYWORDS env). sublist keyword (lower (cell_str env d)))"
    by (simp add: should_exclude_def Let_def list_ex_iff)
next
  show "set (snd (normalize_df env df src))
        \<subseteq> (\<Union>(i, r) \<in> set (filter (\<lambda>(i, r). \<not> should_exclude env (cell_at r ''Description''))
                                (rows df)).
             set (snd (enrich_merchant env (cell_at r ''Description'')))
             \<union> set (snd (get_category_cell env (cell_at r ''Description''))))"
    using normalize_requests[of env df src] by (simp add: exclude_rows_simps)
next
  fix out t
  let ?kept = "filter (\<lambda>(i, r). \<not> should_exclude env (cell_at r ''Description'')) (rows df)"
  assume n: "normalize_df env df src = (Inr out, t)"
  from normalize_Inr_build[OF n] obtain df' dc amt lbl t' amounts ta where
    B: "build env df' dc amt lbl = (Inr out, t')" and
    A: "amt df' = (Inr amounts, ta)" and
    la: "length amounts = length (rows df')" and
    I: "map fst (rows df') = map fst ?kept" and
    D: "map (\<lambda>(i, r). cell_at r ''Description'') (rows df')
          = map (\<lambda>(i, r). cell_at r ''Description'') ?kept"
    unfolding exclude_rows_simps by metis
  have lr: "length (rows df') = length ?kept" using map_eq_imp_length[OF I] .
  have lo: "length out = length ?kept" using build_rows(1)[OF B A la] lr by simp
  have row: "fst (out ! k) = fst (?kept ! k)
           \<and> description (snd (out ! k))
               = fst (enrich_merchant env (cell_at (snd (?kept ! k)) ''Description''))
           \<and> Inr (category (snd (out ! k)))
               = fst (get_category_cell env (cell_at (snd (?kept ! k)) ''Description''))"
    if k: "k < length ?kept" for k
  proof -
    from k lr have k': "k < length (rows df')" by simp
    have d: "cell_at (snd (rows df' ! k)) ''Description'' = cell_at (snd (?kept ! k)) ''Description''"
      using map_eq_nth[OF D k'] by (simp add: case_prod_unfold)
    have i: "fst (rows df' ! k) = fst (?kept ! k)" using map_eq_nth[OF I k'] .
    show ?thesis
      using build_rows(2)[OF B A la k'] build_rows(4)[OF B A la k'] build_rows(5)[OF B A la k']
      by (simp add: d i)
  qed
  show "list_all2
            (\<lambda>(i, r) (j, c). j = i
               \<and> description c = fst (enrich_merchant env (cell_at r ''Description''))
               \<and> Inr (category c) = fst (get_category_cell env (cell_at r ''Description'')))
            ?kept out"
  proof (rule list_all2_all_nthI)
    show "length ?kept = length out" using lo by simp
  next
    fix k assume "k < length ?kept"
    from row[OF this]
    show "(case ?kept ! k of (i, r) \<Rightarrow> \<lambda>(j, c). j = i
               \<and> description c = fst (enrich_merchant env (cell_at r ''Description''))
               \<and> Inr (category c) = fst (get_category_cell env (cell_at r ''Description'')))
            (out ! k)"
      by (simp add: case_prod_unfold)
  qed
  show "map fst out = map fst ?kept"
  proof (rule nth_equalityI)
    show "length (map fst out) = length (map fst ?kept)" using lo by simp
  next
    fix k assume "k < length (map fst out)"
    then have k: "k < length ?kept" using lo by simp
    with row[OF k] lo show "map fst out ! k = map fst ?kept ! k" by simp
  qed
qed

lemma filter_chase_frame:
  "filter (\<lambda>(i, r). \<not> should_exclude sample_env (cell_at r ''Description'')) (rows chase_frame)
     = [(0, [''Transaction Date'' \<mapsto> Str ''2024-01-05'',
             ''Description'' \<mapsto> Str ''Corner Cafe'',
             ''Amount'' \<mapsto> Str ''1,200.50''])]"
  using exclude_chase_frame by (simp add: exclude_rows_def chase_frame_def)

theorem normalize_drops_excluded_witness:
  "should_exclude sample_env (Str ''AUTOMATIC PAYMENT - THANK'')
   \<and> (\<exists>keyword \<in> set (FILTER_KEYWORDS sample_env).
         sublist keyword (lower (cell_str sample_env (Str ''AUTOMATIC PAYMENT - THANK''))))
   \<and> map fst (rows chase_frame) = [0, 1]
   \<and> (\<exists>out t. normalize_df sample_env chase_frame ''chase'' = (Inr out, t) \<and> map fst out = [0])"
proof -
  have 1: "should_exclude sample_env (Str ''AUTOMATIC PAYMENT - THANK'')"
    by (rule should_exclude_samples)
  from normalize_drops_excluded [of sample_env "Str ''AUTOMATIC PAYMENT - THANK''"
      chase_frame "''chase''"] 1
  have 2: "\<exists>keyword \<in> set (FILTER_KEYWORDS sample_env).
         sublist keyword (lower (cell_str sample_env (Str ''AUTOMATIC PAYMENT - THANK'')))"
    by blast
  from normalize_drops_excluded [of sample_env "Str ''AUTOMATIC PAYMENT - THANK''"
      chase_frame "''chase''"] normalize_chase_frame
  have 3: "\<exists>out t. normalize_df sample_env chase_frame ''chase'' = (Inr out, t) \<and> map fst out = [0]"
    unfolding filter_chase_frame by fastforce
  have 4: "map fst (rows chase_frame) = [0, 1]" by (simp add: chase_frame_def)
  from 1 2 3 4 show ?thesis by blast
qed

subsection \<open>The unsupported-format branch\<close>

lemma fst_bind:
  "fst (bind m f) = (case fst m of Inl e \<Rightarrow> Inl e | Inr x \<Rightarrow> fst (f x))"
  by (cases m; cases "fst m") (auto simp: bind_def split: prod.splits)

lemma fst_bind_neq:
  assumes "fst m \<noteq> Inl e" "\<And>x. fst (f x) \<noteq> Inl e"
  shows "fst (bind m f) \<noteq> Inl e"
  using assms by (auto simp: fst_bind split: sum.splits)

lemma fst_apply_series_neq:
  assumes "\<And>x. fst (f x) \<noteq> Inl e"
  shows "fst (apply_series f xs) \<noteq> Inl e"
proof (induction xs)
  case Nil
  then show ?case by (simp add: pure_def)
next
  case (Cons x xs)
  show ?case
    unfolding apply_series.simps
    by (intro fst_bind_neq) (simp_all add: assms Cons pure_def)
qed

lemma getitem_supported: "fst (getitem df c) \<noteq> Inl (ValueError_unsupported s)"
  by (simp add: getitem_def pure_def lift_def)

lemma astype_float_supported: "fst (astype_float env xs) \<noteq> Inl (ValueError_unsupported s)"
  unfolding astype_float_def
proof (rule fst_apply_series_neq)
  fix c show "fst (to_float env c) \<noteq> Inl (ValueError_unsupported s)"
    by (cases c) (simp_all add: pure_def lift_def split: option.splits)
qed

lemma to_datetime_series_supported:
  "fst (to_datetime_series env xs) \<noteq> Inl (ValueError_unsupported s)"
  unfolding to_datetime_series_def
  by (rule fst_apply_series_neq) (simp add: pure_def lift_def split: option.splits)

lemma enrich_series_supported:
  "fst (enrich_series env xs) \<noteq> Inl (ValueError_unsupported s)"
  unfolding enrich_series_def
  by (rule fst_apply_series_neq) (simp add: case_prod_unfold)

lemma category_series_supported:
  "fst (category_series env xs) \<noteq> Inl (ValueError_unsupported s)"
  unfolding category_series_def
proof (rule fst_apply_series_neq)
  fix c show "fst (get_category_cell env c) \<noteq> Inl (ValueError_unsupported s)"
    by (cases c) (simp_all add: case_prod_unfold)
qed

lemma amount_float_supported:
  "fst (amount_float env df) \<noteq> Inl (ValueError_unsupported s)"
  unfolding amount_float_def
  by (intro fst_bind_neq) (simp_all add: getitem_supported astype_float_supported pure_def)

lemma build_supported:
  assumes "\<And>df. fst (amt df) \<noteq> Inl (ValueError_unsupported s)"
  shows "fst (build env df dc amt src) \<noteq> Inl (ValueError_unsupported s)"
  unfolding build_def
  by (intro fst_bind_neq)
     (simp_all add: assms getitem_supported to_datetime_series_supported
        enrich_series_supported category_series_supported pure_def)

lemma normalize_supported:
  assumes "src \<in> {''amex'', ''chase'', ''bilt'', ''capone''}"
  shows "fst (normalize_df env df src) \<noteq> Inl (ValueError_unsupported s)"
proof -
  have plain: "fst (build env d dc (amount_float env) lbl) \<noteq> Inl (ValueError_unsupported s)"
    for d dc lbl
    by (rule build_supported) (rule amount_float_supported)
  have stored: "fst (build env d dc (\<lambda>df. getitem df c) lbl) \<noteq> Inl (ValueError_unsupported s)"
    for d dc c lbl
    by (rule build_supported) (rule getitem_supported)
  let ?df = "exclude_rows env df"
  have chase: "fst
          (bind (getitem ?df ''Amount'') (\<lambda>a.
           bind (astype_float env (str_replace_comma (astype_str env a))) (\<lambda>xs.
           build env (setitem ?df ''Amount'' (map (Float \<circ> fabs) xs))
             ''Transaction Date'' (\<lambda>df. getitem df ''Amount'') ''Chase'')))
        \<noteq> Inl (ValueError_unsupported s)"
    by (intro fst_bind_neq stored getitem_supported astype_float_supported)
  have capone: "fst
          (bind (getitem ?df ''Debit'') (\<lambda>d.
           bind (astype_float env (map fillna0 d)) (\<lambda>debit.
           bind (getitem ?df ''Credit'') (\<lambda>c.
           bind (astype_float env (map fillna0 c)) (\<lambda>credit.
           build env (setitem ?df ''amount''
                        (map (\<lambda>(x, y). Float (fsub x y)) (zip debit credit)))
             ''Transaction Date'' (\<lambda>df. getitem df ''amount'') ''CapitalOne'')))))
        \<noteq> Inl (ValueError_unsupported s)"
    by (intro fst_bind_neq stored getitem_supported astype_float_supported)
  show ?thesis
    unfolding normalize_df_def Let_def
    using assms
    by (intro fst_bind_neq) (auto simp: getitem_supported plain chase capone)
qed

lemma normalize_unsupported:
  assumes "''Description'' \<in> set (columns df)"
    "src \<notin> {''amex'', ''chase'', ''bilt'', ''capone''}"
  shows "normalize_df env df src = (Inl (ValueError_unsupported src), [])"
  using assms by (simp add: normalize_df_def Let_def getitem_def bind_def pure_def lift_def)

text \<open>
  C10. \<open>detect_format\<close> returns one of the five labels. On each of the four labels other
  than \<open>unknown\<close>, \<open>normalize\<close> never raises the ``Unsupported CSV format'' error, whatever
  else it raises. On a frame detected as \<open>unknown\<close>, \<open>process_csv\<close> prints the warning and
  returns with nothing else changed. So no call of \<open>process_csv\<close> ends in that error.
\<close>

theorem unsupported_format_unreachable:
  fixes env :: "('n::{zero,minus,abs}) env"
  shows
  "detect_format df \<in> {''amex'', ''chase'', ''bilt'', ''capone'', ''unknown''}
   \<and> (src \<in> {''amex'', ''chase'', ''bilt'', ''capone''} \<longrightarrow>
        fst (normalize_df env df src) \<noteq> Inl (ValueError_unsupported s))
   \<and> (read_csv env file = Inr df \<and> detect_format df = ''unknown'' \<longrightarrow>
        process_csv env st file = (None, st\<lparr>printed := printed st @ [Unknown_format file]\<rparr>))
   \<and> fst (process_csv env st file) \<noteq> Some (ValueError_unsupported s)"
proof (intro conjI impI)
  show "detect_format df \<in> {''amex'', ''chase'', ''bilt'', ''capone'', ''unknown''}"
    by (rule detect_format_cases)
next
  assume "src \<in> {''amex'', ''chase'', ''bilt'', ''capone''}"
  then show "fst (normalize_df env df src) \<noteq> Inl (ValueError_unsupported s)"
    by (rule normalize_supported)
next
  assume "read_csv env file = Inr df \<and> detect_format df = ''unknown''"
  then show "process_csv env st file = (None, st\<lparr>printed := printed st @ [Unknown_format file]\<rparr>)"
    by (simp add: process_csv_def)
next
  show "fst (process_csv env st file) \<noteq> Some (ValueError_unsupported s)"
  proof (cases "read_csv env file")
    case (Inl msg)
    then show ?thesis by (simp add: process_csv_def)
  next
    case (Inr d)
    show ?thesis
    proof (cases "detect_format d = ''unknown''")
      case True
      with Inr show ?thesis by (simp add: process_csv_def)
    next
      case False
      with detect_format_cases[of d]
      have "detect_format d \<in> {''amex'', ''chase'', ''bilt'', ''capone''}" by blast
      then have "fst (normalize_df env d (detect_format d)) \<noteq> Inl (ValueError_unsupported s)"
        by (rule normalize_supported)
      with Inr False show ?thesis
        by (auto simp: process_csv_def Let_def split: prod.splits sum.splits option.splits)
    qed
  qed
qed

lemma detect_format_samples:
  "detect_format other_frame = ''unknown''"
  "detect_format chase_frame = ''chase''"
  "detect_format capone_frame = ''capone''"
  by (simp_all add: detect_format_def Let_def sample_signatures)

theorem unsupported_format_unreachable_witness:
  "''capone'' \<in> {''amex'', ''chase'', ''bilt'', ''capone''}
   \<and> fst (normalize_df sample_env capone_frame ''capone'') \<noteq> Inl (ValueError_unsupported ''capone'')
   \<and> read_csv sample_env ''notes.csv'' = Inr other_frame
   \<and> detect_format other_frame = ''unknown''
   \<and> process_csv sample_env sample_state ''notes.csv''
       = (None, sample_state\<lparr>printed := printed sample_state @ [Unknown_format ''notes.csv'']\<rparr>)"
proof -
  have r: "read_csv sample_env ''notes.csv'' = Inr other_frame"
    by (simp add: sample_env_def sample_files_def)
  from unsupported_format_unreachable
         [of capone_frame "''capone''" sample_env "''capone''" "''notes.csv''" sample_state]
  have 1: "fst (normalize_df sample_env capone_frame ''capone'') \<noteq> Inl (ValueError_unsupported ''capone'')"
    by simp
  from unsupported_format_unreachable
         [of other_frame "''capone''" sample_env "''capone''" "''notes.csv''" sample_state]
       r detect_format_samples(1)
  have 2: "process_csv sample_env sample_state ''notes.csv''
       = (None, sample_state\<lparr>printed := printed sample_state @ [Unknown_format ''notes.csv'']\<rparr>)"
    by blast
  from 1 2 r detect_format_samples(1) show ?thesis by simp
qed


section \<open>The pipeline\<close>

lemma process_csv_fst: "fst (process_csv env st f) = fst (process_csv env st' f)"
  by (simp add: process_csv_def Let_def split: sum.splits prod.splits option.splits)

lemma process_csv_printed:
  "printed (snd (process_csv env st f)) =
     printed st @
       (case fst (process_csv env st f) of
          Some e \<Rightarrow> []
        | None \<Rightarrow>
            (case read_csv env f of
               Inr df \<Rightarrow> [if detect_format df = ''unknown'' then Unknown_format f
                          else Processed f (stem f @ ''_normalized.csv'')]
             | Inl msg \<Rightarrow> []))"
  by (simp add: process_csv_def Let_def split: sum.splits prod.splits option.splits)


lemma run_pipeline_Cons:
  "run_pipeline env st (f # fs) =
     run_pipeline env
       (case fst (process_csv env st f) of
          Some e \<Rightarrow> (snd (process_csv env st f))
                      \<lparr>printed := printed (snd (process_csv env st f)) @ [Failed f e]\<rparr>
        | None \<Rightarrow> snd (process_csv env st f)) fs"
  by (simp split: prod.splits option.splits)

lemma process_csv_unknown:
  "read_csv env f = Inr df \<Longrightarrow> detect_format df = ''unknown''
   \<Longrightarrow> process_csv env st f = (None, st\<lparr>printed := printed st @ [Unknown_format f]\<rparr>)"
  by (simp add: process_csv_def)

lemma process_csv_line:
  fixes env :: "('n::{zero,minus,abs}) env"
  shows "\<exists>line.
     printed (case fst (process_csv env st f) of
          Some e \<Rightarrow> (snd (process_csv env st f))
                      \<lparr>printed := printed (snd (process_csv env st f)) @ [Failed f e]\<rparr>
        | None \<Rightarrow> snd (process_csv env st f)) = printed st @ [line]
     \<and> (\<forall>e. fst (process_csv env st0 f) = Some e \<longrightarrow> line = Failed f e)
     \<and> (fst (process_csv env st0 f) = None \<longrightarrow>
          line = Unknown_format f \<or> line = Processed f (stem f @ ''_normalized.csv''))
     \<and> (\<forall>df. read_csv env f = Inr df \<and> detect_format df = ''unknown'' \<longrightarrow>
          fst (process_csv env st0 f) = None \<and> line = Unknown_format f)"
proof (cases "fst (process_csv env st f)")
  case (Some e)
  then have 0: "fst (process_csv env st0 f) = Some e" using process_csv_fst[of env st f st0] by simp
  have "printed (snd (process_csv env st f)) = printed st"
    using Some by (simp add: process_csv_printed)
  moreover have "\<not> (read_csv env f = Inr df \<and> detect_format df = ''unknown'')" for df
    using 0 process_csv_unknown[of env f df st0] by auto
  ultimately show ?thesis using Some 0 by simp
next
  case None
  then have 0: "fst (process_csv env st0 f) = None" using process_csv_fst[of env st f st0] by simp
  from None obtain df where df: "read_csv env f = Inr df"
    by (cases "read_csv env f") (simp_all add: process_csv_def)
  have "printed (snd (process_csv env st f)) =
     printed st @ [if detect_format df = ''unknown'' then Unknown_format f
                   else Processed f (stem f @ ''_normalized.csv'')]"
    using None df by (simp add: process_csv_printed)
  then show ?thesis using None 0 df by simp
qed

text \<open>
  C8. \<open>run_pipeline\<close> returns for every list of files, and what it prints beyond what was
  printed before is one line per file, in the order of the files: when \<open>process_csv\<close>
  raises \<open>e\<close> on the file, the line is the failure line with the file's name and \<open>e\<close>;
  when it returns, the line is the warning or the success line for that file; and a file
  whose frame is detected as \<open>unknown\<close> does not raise and gets the warning. So a file that
  fails does not keep the files after it from being processed.
\<close>

theorem run_pipeline_attempts_every_file:
  fixes env :: "('n::{zero,minus,abs}) env"
  shows
  "\<exists>lines. printed (run_pipeline env st files) = printed st @ lines
     \<and> list_all2
         (\<lambda>file line.
            (\<forall>e. fst (process_csv env st0 file) = Some e \<longrightarrow> line = Failed file e)
          \<and> (fst (process_csv env st0 file) = None \<longrightarrow>
               line = Unknown_format file
               \<or> line = Processed file (stem file @ ''_normalized.csv''))
          \<and> (\<forall>df. read_csv env file = Inr df \<and> detect_format df = ''unknown'' \<longrightarrow>
               fst (process_csv env st0 file) = None \<and> line = Unknown_format file))
         files lines"
proof -
  define P where "P = (\<lambda>file line.
            (\<forall>e. fst (process_csv env st0 file) = Some e \<longrightarrow> line = Failed file e)
          \<and> (fst (process_csv env st0 file) = None \<longrightarrow>
               line = Unknown_format file
               \<or> line = Processed file (stem file @ ''_normalized.csv''))
          \<and> (\<forall>df. read_csv env file = Inr df \<and> detect_format df = ''unknown'' \<longrightarrow>
               fst (process_csv env st0 file) = None \<and> line = Unknown_format file))"
  have step: "\<exists>line.
     printed (case fst (process_csv env st f) of
          Some e \<Rightarrow> (snd (process_csv env st f))
                      \<lparr>printed := printed (snd (process_csv env st f)) @ [Failed f e]\<rparr>
        | None \<Rightarrow> snd (process_csv env st f)) = printed st @ [line]
     \<and> P f line" for st f
    unfolding P_def by (rule process_csv_line)
  have "\<exists>lines. printed (run_pipeline env st files) = printed st @ lines
          \<and> list_all2 P files lines"
  proof (induction files arbitrary: st)
    case Nil
    then show ?case by simp
  next
    case (Cons f fs)
    let ?st = "case fst (process_csv env st f) of
          Some e \<Rightarrow> (snd (process_csv env st f))
                      \<lparr>printed := printed (snd (process_csv env st f)) @ [Failed f e]\<rparr>
        | None \<Rightarrow> snd (process_csv env st f)"
    from step[of st f] obtain line where
      l: "printed ?st = printed st @ [line]" and p: "P f line"
      by blast
    from Cons.IH[of ?st] obtain lines where
      r: "printed (run_pipeline env ?st fs) = printed ?st @ lines" and
      q: "list_all2 P fs lines"
      by blast
    have "printed (run_pipeline env st (f # fs)) = printed st @ (line # lines)"
      unfolding run_pipeline_Cons r l by simp
    moreover have "list_all2 P (f # fs) (line # lines)"
      using p q by simp
    ultimately show ?case by blast
  qed
  then show ?thesis unfolding P_def .
qed

lemma stem_samples:
  "stem ''chase.csv'' = ''chase''" "stem ''capone.csv'' = ''capone''"
  by (simp_all add: stem_def)

lemma sample_io:
  "read_csv sample_env = sample_files"
  "to_csv sample_env name = None"
  "rename sample_env name = None"
  by (simp_all add: sample_env_def)

lemma process_csv_samples:
  "process_csv sample_env st ''chase.csv'' =
     (None, st\<lparr>sent := sent st @ [suggest_request sample_env (Str ''Corner Cafe'')],
               normalized := normalized st @
                 [(''chase_normalized.csv'',
                   [\<lparr>date = Timestamp 19727, description = PStr ''Corner Cafe'',
                     amount = Float (Num (2401 / 2)), category = PStr ''Dining'',
                     source = ''Chase''\<rparr>])],
               processed := processed st @ [''chase.csv''],
               printed := printed st @ [Processed ''chase.csv'' ''chase_normalized.csv'']\<rparr>)"
  "process_csv sample_env st ''notes.csv'' =
     (None, st\<lparr>printed := printed st @ [Unknown_format ''notes.csv'']\<rparr>)"
  "process_csv sample_env st ''empty.csv'' =
     (Some (ReadError ''No columns to parse from file''), st)"
  "process_csv sample_env st ''capone.csv'' =
     (None, st\<lparr>sent := sent st @ [suggest_request sample_env (Str ''Uber Trip'')],
               normalized := normalized st @
                 [(''capone_normalized.csv'',
                   [\<lparr>date = Timestamp 19727, description = PStr ''Uber'',
                     amount = Float (Num 15), category = PStr ''Transport'',
                     source = ''CapitalOne''\<rparr>])],
               processed := processed st @ [''capone.csv''],
               printed := printed st @ [Processed ''capone.csv'' ''capone_normalized.csv'']\<rparr>)"
  by (simp_all add: process_csv_def Let_def sample_io sample_files_def
      detect_format_samples normalize_chase_frame normalize_capone_frame stem_samples)




lemma run_pipeline_samples:
  "printed (run_pipeline sample_env sample_state
              [''chase.csv'', ''notes.csv'', ''empty.csv'', ''capone.csv''])
     = [Processed ''chase.csv'' ''chase_normalized.csv'',
        Unknown_format ''notes.csv'',
        Failed ''empty.csv'' (ReadError ''No columns to parse from file''),
        Processed ''capone.csv'' ''capone_normalized.csv'']"
  by (simp add: process_csv_samples sample_state_def)


theorem run_pipeline_attempts_every_file_witness:
  "printed (run_pipeline sample_env sample_state
              [''chase.csv'', ''notes.csv'', ''empty.csv'', ''capone.csv''])
     = [Processed ''chase.csv'' ''chase_normalized.csv'',
        Unknown_format ''notes.csv'',
        Failed ''empty.csv'' (ReadError ''No columns to parse from file''),
        Processed ''capone.csv'' ''capone_normalized.csv'']
   \<and> fst (process_csv sample_env sample_state ''empty.csv'')
       = Some (ReadError ''No columns to parse from file'')
   \<and> read_csv sample_env ''notes.csv'' = Inr other_frame
   \<and> detect_format other_frame = ''unknown''
   \<and> list_all2
         (\<lambda>file line.
            (\<forall>e. fst (process_csv sample_env sample_state file) = Some e \<longrightarrow> line = Failed file e)
          \<and> (fst (process_csv sample_env sample_state file) = None \<longrightarrow>
               line = Unknown_format file
               \<or> line = Processed file (stem file @ ''_normalized.csv''))
          \<and> (\<forall>df. read_csv sample_env file = Inr df \<and> detect_format df = ''unknown'' \<longrightarrow>
               fst (process_csv sample_env sample_state file) = None
               \<and> line = Unknown_format file))
         [''chase.csv'', ''notes.csv'', ''empty.csv'', ''capone.csv'']
         [Processed ''chase.csv'' ''chase_normalized.csv'',
          Unknown_format ''notes.csv'',
          Failed ''empty.csv'' (ReadError ''No columns to parse from file''),
          Processed ''capone.csv'' ''capone_normalized.csv'']"
proof -
  from run_pipeline_attempts_every_file
         [of sample_env sample_state
             "[''chase.csv'', ''notes.csv'', ''empty.csv'', ''capone.csv'']" sample_state]
  obtain lines where
    12: "printed (run_pipeline sample_env sample_state
              [''chase.csv'', ''notes.csv'', ''empty.csv'', ''capone.csv''])
          = printed sample_state @ lines
     \<and> list_all2
         (\<lambda>file line.
            (\<forall>e. fst (process_csv sample_env sample_state file) = Some e \<longrightarrow> line = Failed file e)
          \<and> (fst (process_csv sample_env sample_state file) = None \<longrightarrow>
               line = Unknown_format file
               \<or> line = Processed file (stem file @ ''_normalized.csv''))
          \<and> (\<forall>df. read_csv sample_env file = Inr df \<and> detect_format df = ''unknown'' \<longrightarrow>
               fst (process_csv sample_env sample_state file) = None
               \<and> line = Unknown_format file))
         [''chase.csv'', ''notes.csv'', ''empty.csv'', ''capone.csv''] lines"
    by (rule exE)
  note 1 = 12[THEN conjunct1] and 2 = 12[THEN conjunct2]
  have "printed sample_state = []" by (simp add: sample_state_def)
  with 1 have l: "lines = [Processed ''chase.csv'' ''chase_normalized.csv'',
        Unknown_format ''notes.csv'',
        Failed ''empty.csv'' (ReadError ''No columns to parse from file''),
        Processed ''capone.csv'' ''capone_normalized.csv'']"
    unfolding run_pipeline_samples by simp
  have 3: "fst (process_csv sample_env sample_state ''empty.csv'')
       = Some (ReadError ''No columns to parse from file'')"
    by (simp only: process_csv_samples(3) fst_conv)
  have 4: "read_csv sample_env ''notes.csv'' = Inr other_frame"
    by (simp add: sample_io sample_files_def)
  show ?thesis
    using run_pipeline_samples 3 4 detect_format_samples(1) 2[unfolded l]
    by (intro conjI)
qed

end
